theory Spec2Isabelle
  imports Complex_Main "HOL-Library.Word" "HOL-Library.Log_Nat"
begin

section \<open>Values, vectors and collaborator objects\<close>

text \<open>
  The numeric code of \<^verbatim>\<open>pyesapi/__init__.py\<close> works on IEEE doubles. The
  elements of its arrays are modelled as exact reals with one extra value for NaN
  (infinities and rounding are left out): \<open>F64 r\<close> is the number \<open>r\<close>, \<open>NaN\<close>
  is not-a-number. The voxel centres and offsets of the partial-volume refiner are
  exact reals as well.
\<close>

datatype f64 = F64 real | NaN

fun fadd :: "f64 \<Rightarrow> f64 \<Rightarrow> f64" where
  "fadd (F64 a) (F64 b) = F64 (a + b)"
| "fadd _ _ = NaN"

fun fsub :: "f64 \<Rightarrow> f64 \<Rightarrow> f64" where
  "fsub (F64 a) (F64 b) = F64 (a - b)"
| "fsub _ _ = NaN"

fun fmul :: "f64 \<Rightarrow> f64 \<Rightarrow> f64" where
  "fmul (F64 a) (F64 b) = F64 (a * b)"
| "fmul _ _ = NaN"

fun isnan :: "f64 \<Rightarrow> bool" where
  "isnan NaN = True"
| "isnan (F64 _) = False"

text \<open>Python's \<open>==\<close> on floats: NaN is equal to nothing, itself included.\<close>

definition f64_eq :: "f64 \<Rightarrow> f64 \<Rightarrow> bool" where
  "f64_eq a b = (\<not> isnan a \<and> \<not> isnan b \<and> a = b)"

datatype error = AssertionError string | Exception string | ZeroDivisionError
  | ArgumentException | ValueError

text \<open>Python's float division \<open>a / b\<close>: it raises when the divisor is zero.\<close>

fun py_truediv :: "f64 \<Rightarrow> f64 \<Rightarrow> error + f64" where
  "py_truediv (F64 a) (F64 b) = (if b = 0 then Inl ZeroDivisionError else Inr (F64 (a / b)))"
| "py_truediv NaN (F64 b) = (if b = 0 then Inl ZeroDivisionError else Inr NaN)"
| "py_truediv _ NaN = Inr NaN"

text \<open>
  The geometry of the scan is computed in IEEE double arithmetic, where every sum and
  product is rounded to the nearest double, ties to the even significand.
  \<open>round_double\<close> is that rounding on the reals: a nonzero \<open>x\<close> with
  \<open>2^b \<le> |x| < 2^(b+1)\<close> is rounded to a multiple of \<open>2^(b-52)\<close>, and to a
  multiple of \<open>2^(-1074)\<close> in the subnormal range. Overflow to infinity is left out.
\<close>

definition round_half_even :: "real \<Rightarrow> int" where
  "round_half_even x =
     (let f = \<lfloor>x\<rfloor>; r = x - of_int f
      in if r < 1 / 2 then f else if 1 / 2 < r then f + 1 else if even f then f else f + 1)"

definition pow2 :: "int \<Rightarrow> real" where
  "pow2 e = (if 0 \<le> e then 2 ^ nat e else 1 / 2 ^ nat (- e))"

text \<open>The exponent \<open>b\<close> with \<open>2^b \<le> |x| < 2^(b+1)\<close>, for \<open>x\<close> not zero.\<close>

definition binade :: "real \<Rightarrow> int" where
  "binade x =
     (let a = \<bar>x\<bar>
      in if 1 \<le> a then bitlen \<lfloor>a\<rfloor> - 1 else - bitlen (\<lceil>1 / a\<rceil> - 1))"

definition round_double :: "real \<Rightarrow> real" where
  "round_double x =
     (if x = 0 then 0
      else let e = max (binade x - 52) (- 1074)
           in of_int (round_half_even (x / pow2 e)) * pow2 e)"

text \<open>
  \<open>VVector\<close> of the planning API, a vector of three doubles, with its two
  operators used by the scan; each coordinate of a result is rounded.
\<close>

datatype VVector = VVector (vx: real) (vy: real) (vz: real)

fun op_Addition :: "VVector \<Rightarrow> VVector \<Rightarrow> VVector" where
  "op_Addition (VVector a b c) (VVector a' b' c') =
     VVector (round_double (a + a')) (round_double (b + b')) (round_double (c + c'))"

fun op_Multiply :: "real \<Rightarrow> VVector \<Rightarrow> VVector" where
  "op_Multiply k (VVector a b c) =
     VVector (round_double (k * a)) (round_double (k * b)) (round_double (k * c))"

text \<open>
  A profile function of the collaborator (\<open>GetSegmentProfile\<close>, \<open>GetDoseProfile\<close>)
  takes a start point, a stop point and a preallocated buffer, and fills the whole
  buffer. \<open>f start stop n i\<close> is the value it writes at index \<open>i\<close> of a buffer of
  length \<open>n\<close>. Every call is recorded in a log, in order, with its two end points and
  the length of the buffer it was given.
\<close>

type_synonym 'a profile_fxn = "VVector \<Rightarrow> VVector \<Rightarrow> nat \<Rightarrow> nat \<Rightarrow> 'a"

type_synonym call = "VVector \<times> VVector \<times> nat"

definition call_profile :: "'a profile_fxn \<Rightarrow> VVector \<Rightarrow> VVector \<Rightarrow> 'b list \<Rightarrow> 'a list" where
  "call_profile f start stop buffer =
     map (f start stop (length buffer)) [0..<length buffer]"

text \<open>The fields that \<open>Image\<close> and \<open>Dose\<close> share (the argument \<open>dose_or_image\<close>).\<close>

record dose_or_image =
  Origin :: VVector
  XDirection :: VVector
  YDirection :: VVector
  ZDirection :: VVector
  XRes :: real
  YRes :: real
  ZRes :: real
  XSize :: nat
  YSize :: nat
  ZSize :: nat
  GetVoxels :: "nat \<Rightarrow> nat \<Rightarrow> nat \<Rightarrow> 32 word"

text \<open>
  \<open>GetVoxels g z x y\<close> is the entry \<open>[x, y]\<close> that \<open>GetVoxels(z, buffer)\<close> writes into
  the two-dimensional \<open>Int32\<close> buffer.
\<close>

record Dose = dose_or_image +
  VoxelToDoseValue :: "int \<Rightarrow> f64"
  GetDoseProfile :: "f64 profile_fxn"

record Structure =
  HasSegment :: bool
  GetSegmentProfile :: "bool profile_fxn"

section \<open>Arrays\<close>

type_synonym 'a arr3 = "'a list list list"

text \<open>\<open>np.zeros(shape)\<close>: the default element type is float64.\<close>

definition np_zeros :: "nat \<times> nat \<times> nat \<Rightarrow> f64 arr3" where
  "np_zeros shp = (case shp of (nx, ny, nz) \<Rightarrow>
     replicate nx (replicate ny (replicate nz (F64 0))))"

definition has_shape :: "'a arr3 \<Rightarrow> nat \<times> nat \<times> nat \<Rightarrow> bool" where
  "has_shape a shp = (case shp of (nx, ny, nz) \<Rightarrow>
     length a = nx \<and> list_all (\<lambda>p. length p = ny \<and> list_all (\<lambda>r. length r = nz) p) a)"

text \<open>
  The element types handed to \<open>to_ndarray\<close> and \<open>fill_in_profiles\<close> as \<open>dtype\<close>:
  how a value of the type compares under \<open>==\<close>, and what it becomes when numpy
  stores it into a float64 array.
\<close>

record 'a ctype =
  py_eq :: "'a \<Rightarrow> 'a \<Rightarrow> bool"
  to_float :: "'a \<Rightarrow> f64"

definition c_bool :: "bool ctype" where
  "c_bool = \<lparr>py_eq = (=), to_float = (\<lambda>b. F64 (if b then 1 else 0))\<rparr>"

definition c_double :: "f64 ctype" where
  "c_double = \<lparr>py_eq = f64_eq, to_float = (\<lambda>v. v)\<rparr>"

definition c_int32 :: "32 word ctype" where
  "c_int32 = \<lparr>py_eq = (=), to_float = (\<lambda>w. F64 (real_of_int (sint w)))\<rparr>"

section \<open>Buffer marshaler\<close>

definition SAFE_MODE :: bool where
  "SAFE_MODE = False"

text \<open>\<open>any(A == B for A, B in zip(a, b))\<close>\<close>

definition any_equal :: "('a \<Rightarrow> 'a \<Rightarrow> bool) \<Rightarrow> 'a list \<Rightarrow> 'a list \<Rightarrow> bool" where
  "any_equal eq a b = list_ex (\<lambda>(A, B). eq A B) (zip a b)"

definition check_arrays :: "('a \<Rightarrow> 'a \<Rightarrow> bool) \<Rightarrow> 'a list \<Rightarrow> 'a list \<Rightarrow> error + unit" where
  "check_arrays eq a b =
     (if length a \<noteq> length b then Inl (AssertionError ''Arrays are different size!'')
      else if \<not> any_equal eq a b then Inl (AssertionError ''Arrays have different values!'')
      else Inr ())"

text \<open>
  \<open>to_ndarray\<close> copies the pinned bytes of \<open>src\<close> and reads them back as \<open>dtype\<close>.
  The byte copy is the parameter \<open>copy\<close> (the identity when \<open>dtype\<close> is the element
  type of \<open>src\<close>, as at every call site of the module); \<open>safe\<close> is the module flag
  \<open>SAFE_MODE\<close>.
\<close>

definition to_ndarray_with :: "('a list \<Rightarrow> 'a list) \<Rightarrow> bool \<Rightarrow> 'a list \<Rightarrow> 'a ctype \<Rightarrow> error + 'a list" where
  "to_ndarray_with copy safe src dtype =
     (let dest = copy src in
      if safe then (case check_arrays (py_eq dtype) src dest of
                      Inl e \<Rightarrow> Inl e
                    | Inr _ \<Rightarrow> Inr dest)
      else Inr dest)"

definition to_ndarray :: "'a list \<Rightarrow> 'a ctype \<Rightarrow> error + 'a list" where
  "to_ndarray src dtype = to_ndarray_with (\<lambda>s. s) SAFE_MODE src dtype"

section \<open>Profile scanner\<close>

text \<open>
  \<open>mask_array[x, y, :] = row\<close>: the row is converted to float64 on assignment; a
  row of length one is broadcast, any other length than the last axis is refused.
\<close>

definition set_column :: "f64 arr3 \<Rightarrow> nat \<Rightarrow> nat \<Rightarrow> nat \<Rightarrow> f64 list \<Rightarrow> error + f64 arr3" where
  "set_column a nz x y row =
     (if length row = nz then Inr (a[x := (a ! x)[y := row]])
      else if length row = 1 then Inr (a[x := (a ! x)[y := replicate nz (hd row)]])
      else Inl ValueError)"

text \<open>\<open>src.CopyTo(dst, index)\<close> of the runtime's arrays.\<close>

definition CopyTo :: "'a list \<Rightarrow> 'a list \<Rightarrow> nat \<Rightarrow> error + 'a list" where
  "CopyTo src dst index =
     (if index + length src \<le> length dst
      then Inr (take index dst @ src @ drop (index + length src) dst)
      else Inl ArgumentException)"

text \<open>
  One column of the scan: the body of the loop over \<open>y\<close> up to the marshaled row.
  It returns the new contents of the row buffer and the call that was made.
\<close>

definition get_profile :: "'a profile_fxn \<Rightarrow> 'a list \<Rightarrow> 'a list option \<Rightarrow> VVector \<Rightarrow> VVector \<Rightarrow>
    (error + 'a list) \<times> call" where
  "get_profile profile_fxn row_buffer pre_buffer start stop =
     (case pre_buffer of
        None \<Rightarrow> (Inr (call_profile profile_fxn start stop row_buffer),
                 (start, stop, length row_buffer))
      | Some pre \<Rightarrow> (CopyTo (call_profile profile_fxn start stop pre) row_buffer 0,
                    (start, stop, length pre)))"

text \<open>
  The inner loop of \<open>fill_in_profiles\<close> over \<open>y\<close>. The state is the array, the
  running start point \<open>start_x\<close>, the row buffer and the call log.
\<close>

fun scan_y :: "nat \<Rightarrow> 'a profile_fxn \<Rightarrow> 'a ctype \<Rightarrow> 'a list option \<Rightarrow> VVector \<Rightarrow> VVector \<Rightarrow> nat \<Rightarrow>
    nat list \<Rightarrow> f64 arr3 \<Rightarrow> VVector \<Rightarrow> 'a list \<Rightarrow> call list \<Rightarrow>
    (error + f64 arr3 \<times> VVector \<times> 'a list) \<times> call list" where
  "scan_y nz profile_fxn dtype pre_buffer z_direction y_step x [] mask_array start_x row_buffer lg =
     (Inr (mask_array, start_x, row_buffer), lg)"
| "scan_y nz profile_fxn dtype pre_buffer z_direction y_step x (y # ys) mask_array start_x row_buffer lg =
     (let stop = op_Addition start_x z_direction;
          (filled, c) = get_profile profile_fxn row_buffer pre_buffer start_x stop;
          lg' = lg @ [c]
      in case filled of
           Inl e \<Rightarrow> (Inl e, lg')
         | Inr row_buffer' \<Rightarrow>
            (case to_ndarray row_buffer' dtype of
               Inl e \<Rightarrow> (Inl e, lg')
             | Inr nd \<Rightarrow>
                (case set_column mask_array nz x y (map (to_float dtype) nd) of
                   Inl e \<Rightarrow> (Inl e, lg')
                 | Inr mask_array' \<Rightarrow>
                     scan_y nz profile_fxn dtype pre_buffer z_direction y_step x ys
                       mask_array' (op_Addition start_x y_step) row_buffer' lg')))"

text \<open>
  The outer loop over \<open>x\<close>. The index is a 32-bit integer, so its conversion to a
  double in \<open>x * XRes\<close> is exact and the product is rounded once.
\<close>

fun scan_x :: "('z dose_or_image_scheme) \<Rightarrow> 'a profile_fxn \<Rightarrow> 'a ctype \<Rightarrow> 'a list option \<Rightarrow> VVector \<Rightarrow>
    VVector \<Rightarrow> nat list \<Rightarrow> f64 arr3 \<Rightarrow> 'a list \<Rightarrow> call list \<Rightarrow> (error + f64 arr3) \<times> call list" where
  "scan_x g profile_fxn dtype pre_buffer z_direction y_step [] mask_array row_buffer lg =
     (Inr mask_array, lg)"
| "scan_x g profile_fxn dtype pre_buffer z_direction y_step (x # xs) mask_array row_buffer lg =
     (let start_x = op_Addition (Origin g)
                      (op_Multiply (round_double (real x * XRes g)) (XDirection g))
      in case scan_y (ZSize g) profile_fxn dtype pre_buffer z_direction y_step x [0..<YSize g]
                mask_array start_x row_buffer lg of
           (Inl e, lg') \<Rightarrow> (Inl e, lg')
         | (Inr (mask_array', _, row_buffer'), lg') \<Rightarrow>
             scan_x g profile_fxn dtype pre_buffer z_direction y_step xs mask_array'
               row_buffer' lg')"

definition fill_in_profiles :: "('z dose_or_image_scheme) \<Rightarrow> 'a profile_fxn \<Rightarrow> 'a list \<Rightarrow>
    'a ctype \<Rightarrow> 'a list option \<Rightarrow> call list \<Rightarrow> (error + f64 arr3) \<times> call list" where
  "fill_in_profiles g profile_fxn row_buffer dtype pre_buffer lg =
     (let mask_array = np_zeros (XSize g, YSize g, ZSize g);
          z_direction = op_Multiply (round_double ((real (ZSize g) - 1) * ZRes g))
                          (ZDirection g);
          y_step = op_Multiply (YRes g) (YDirection g)
      in scan_x g profile_fxn dtype pre_buffer z_direction y_step [0..<XSize g] mask_array
           row_buffer lg)"

section \<open>Mask builder\<close>

definition make_segment_mask_for_structure :: "('z dose_or_image_scheme) \<Rightarrow> Structure \<Rightarrow> call list \<Rightarrow>
    (error + f64 arr3) \<times> call list" where
  "make_segment_mask_for_structure g structure lg =
     (if HasSegment structure then
        (let pre_buffer = replicate (ZSize g) False;
             row_buffer = replicate (ZSize g) False
         in fill_in_profiles g (GetSegmentProfile structure) row_buffer c_bool
              (Some pre_buffer) lg)
      else (Inl (Exception ''structure has no segment data''), lg))"

text \<open>
  The argument \<open>sub_samples\<close> is an arbitrary Python value; \<open>type(v) == int\<close> holds
  for exact integers only (\<open>bool\<close> is a subclass of \<open>int\<close>, but its type is
  \<open>bool\<close>).
\<close>

datatype pyval = PyNone | PyInt int | PyBool bool | PyFloat f64 | PyStr string

fun type_is_int :: "pyval \<Rightarrow> bool" where
  "type_is_int (PyInt _) = True"
| "type_is_int _ = False"

fun int_value :: "pyval \<Rightarrow> int" where
  "int_value (PyInt n) = n"
| "int_value _ = 0"

text \<open>
  \<open>binary_dilation\<close> and \<open>binary_erosion\<close> are imported from
  \<open>scipy.ndimage.morphology\<close>; their code is not part of the module. The module
  calls them with the mask alone, so with their defaults, which the specification
  gives as one iteration with 6-connectivity.
\<close>

text \<open>
  Modelled from the spec: the default structuring element of \<open>binary_dilation\<close> and
  \<open>binary_erosion\<close>, the centre voxel with its six face neighbours.
\<close>

definition structuring_element :: "(int \<times> int \<times> int) list" where
  "structuring_element =
     [(0, 0, 0), (-1, 0, 0), (1, 0, 0), (0, -1, 0), (0, 1, 0), (0, 0, -1), (0, 0, 1)]"

text \<open>
  A voxel of the input counts as set when it lies inside the array and its element is
  not zero; voxels outside the array count as unset.
\<close>

definition voxel_set :: "f64 arr3 \<Rightarrow> int \<Rightarrow> int \<Rightarrow> int \<Rightarrow> bool" where
  "voxel_set m x y z =
     (0 \<le> x \<and> x < int (length m) \<and>
      0 \<le> y \<and> y < int (length (m ! nat x)) \<and>
      0 \<le> z \<and> z < int (length (m ! nat x ! nat y)) \<and>
      m ! nat x ! nat y ! nat z \<noteq> F64 0)"

definition tabulate_like :: "'a arr3 \<Rightarrow> (nat \<Rightarrow> nat \<Rightarrow> nat \<Rightarrow> 'b) \<Rightarrow> 'b arr3" where
  "tabulate_like m f =
     map (\<lambda>x. map (\<lambda>y. map (\<lambda>z. f x y z) [0..<length (m ! x ! y)]) [0..<length (m ! x)])
       [0..<length m]"

text \<open>
  Modelled from the spec: \<open>binary_erosion\<close> of scipy, one iteration with
  6-connectivity. A voxel of the boolean result is set when the voxel and its six face
  neighbours are all set in the input.
\<close>

definition binary_erosion :: "f64 arr3 \<Rightarrow> bool arr3" where
  "binary_erosion m = tabulate_like m (\<lambda>x y z.
     list_all (\<lambda>(dx, dy, dz). voxel_set m (int x + dx) (int y + dy) (int z + dz))
       structuring_element)"

text \<open>
  Modelled from the spec: \<open>binary_dilation\<close> of scipy, one iteration with
  6-connectivity. A voxel of the boolean result is set when the voxel or one of its
  six face neighbours is set in the input.
\<close>

definition binary_dilation :: "f64 arr3 \<Rightarrow> bool arr3" where
  "binary_dilation m = tabulate_like m (\<lambda>x y z.
     list_ex (\<lambda>(dx, dy, dz). voxel_set m (int x - dx) (int y - dy) (int z - dz))
       structuring_element)"

text \<open>Elementwise operations of numpy on arrays of one shape.\<close>

definition map2_3 :: "('a \<Rightarrow> 'b \<Rightarrow> 'c) \<Rightarrow> 'a arr3 \<Rightarrow> 'b arr3 \<Rightarrow> 'c arr3" where
  "map2_3 f a b = map2 (map2 (map2 f)) a b"

definition map_3 :: "('a \<Rightarrow> 'b) \<Rightarrow> 'a arr3 \<Rightarrow> 'b arr3" where
  "map_3 f a = map (map (map f)) a"

text \<open>\<open>np.where(m)\<close> of a boolean array: the indices of the set voxels, in row-major order.\<close>

definition np_where :: "bool arr3 \<Rightarrow> (nat \<times> nat \<times> nat) list" where
  "np_where m =
     concat (map (\<lambda>x. concat (map (\<lambda>y. map (\<lambda>z. (x, y, z))
        (filter (\<lambda>z. m ! x ! y ! z) [0..<length (m ! x ! y)])) [0..<length (m ! x)]))
        [0..<length m])"

text \<open>
  \<open>np.linspace(start, stop, num)\<close> with its default \<open>endpoint=True\<close>: \<open>num\<close> evenly
  spaced values from \<open>start\<close> to \<open>stop\<close>, both included; a single value is \<open>start\<close>.
\<close>

definition np_linspace :: "real \<Rightarrow> real \<Rightarrow> nat \<Rightarrow> real list" where
  "np_linspace start stop num =
     (if num = 1 then [start]
      else map (\<lambda>i. start + real i * ((stop - start) / (real num - 1))) [0..<num])"

section \<open>Partial-volume refiner\<close>

text \<open>\<open>for b in inside: if b: f += 1\<close>\<close>

fun count_inside :: "bool list \<Rightarrow> int \<Rightarrow> int" where
  "count_inside [] f = f"
| "count_inside (b # bs) f = count_inside bs (if b then f + 1 else f)"

text \<open>The loop over \<open>yf\<close>: one segment query per lateral offset.\<close>

fun sample_yf :: "Structure \<Rightarrow> nat \<Rightarrow> real \<Rightarrow> real \<Rightarrow> real \<Rightarrow> real \<Rightarrow> real \<Rightarrow> real list \<Rightarrow>
    int \<Rightarrow> call list \<Rightarrow> int \<times> call list" where
  "sample_yf structure sub_samples x y z zRes xf [] f lg = (f, lg)"
| "sample_yf structure sub_samples x y z zRes xf (yf # yfs) f lg =
     (let start = VVector (x + xf) (y + yf) (z - 0.5 * zRes);
          stop = VVector (x + xf) (y + yf) (z + 0.5 * zRes);
          inside = call_profile (GetSegmentProfile structure) start stop
                     (replicate sub_samples False)
      in sample_yf structure sub_samples x y z zRes xf yfs (count_inside inside f)
           (lg @ [(start, stop, sub_samples)]))"

text \<open>The loop over \<open>xf\<close>; the offsets \<open>yf\<close> are generated anew for each \<open>xf\<close>.\<close>

fun sample_xf :: "Structure \<Rightarrow> nat \<Rightarrow> real \<Rightarrow> real \<Rightarrow> real \<Rightarrow> real \<Rightarrow> real \<Rightarrow> real list \<Rightarrow>
    int \<Rightarrow> call list \<Rightarrow> int \<times> call list" where
  "sample_xf structure sub_samples x y z yRes zRes [] f lg = (f, lg)"
| "sample_xf structure sub_samples x y z yRes zRes (xf # xfs) f lg =
     (case sample_yf structure sub_samples x y z zRes xf
             (np_linspace (-0.5 * yRes) (0.5 * yRes) sub_samples) f lg of
        (f', lg') \<Rightarrow> sample_xf structure sub_samples x y z yRes zRes xfs f' lg')"

text \<open>
  The body of the loop over the boundary voxels for one voxel with centre
  \<open>(x, y, z)\<close>: the count \<open>f\<close> of inside samples, divided by \<open>nsamples\<close>
  (which is \<open>sub_samples**3\<close> and not zero where the loop is reached).
\<close>

definition refine_voxel :: "Structure \<Rightarrow> nat \<Rightarrow> int \<Rightarrow> real \<Rightarrow> real \<Rightarrow> real \<Rightarrow> real \<Rightarrow> real \<Rightarrow> real \<Rightarrow>
    call list \<Rightarrow> f64 \<times> call list" where
  "refine_voxel structure sub_samples nsamples x y z xRes yRes zRes lg =
     (case sample_xf structure sub_samples x y z yRes zRes
             (np_linspace (-0.5 * xRes) (0.5 * xRes) sub_samples) 0 lg of
        (f, lg') \<Rightarrow> (F64 (real_of_int f / real_of_int nsamples), lg'))"

definition set_voxel :: "'a arr3 \<Rightarrow> nat \<Rightarrow> nat \<Rightarrow> nat \<Rightarrow> 'a \<Rightarrow> 'a arr3" where
  "set_voxel a ix iy iz v = a[ix := (a ! ix)[iy := (a ! ix ! iy)[iz := v]]]"

fun refine_boundary :: "Structure \<Rightarrow> ('z dose_or_image_scheme) \<Rightarrow> nat \<Rightarrow> int \<Rightarrow>
    (nat \<times> nat \<times> nat) list \<Rightarrow> f64 arr3 \<Rightarrow> call list \<Rightarrow> f64 arr3 \<times> call list" where
  "refine_boundary structure g sub_samples nsamples [] mask_partials lg = (mask_partials, lg)"
| "refine_boundary structure g sub_samples nsamples ((ix, iy, iz) # rest) mask_partials lg =
     (let x = vx (Origin g) + real ix * XRes g;
          y = vy (Origin g) + real iy * YRes g;
          z = vz (Origin g) + real iz * ZRes g
      in case refine_voxel structure sub_samples nsamples x y z (XRes g) (YRes g) (ZRes g) lg of
           (fraction, lg') \<Rightarrow>
             refine_boundary structure g sub_samples nsamples rest
               (set_voxel mask_partials ix iy iz fraction) lg')"

definition mask_boundary_of :: "f64 arr3 \<Rightarrow> bool arr3" where
  "mask_boundary_of bmask = map2_3 (\<lambda>d e. d \<noteq> e) (binary_dilation bmask) (binary_erosion bmask)"

text \<open>
  The refinement branch of \<open>make_segment_mask_for_grid\<close>, reached with an integer
  \<open>sub_samples > 1\<close>: first the array \<open>mask_partials\<close> after the loop over the
  boundary voxels, then the sum \<open>mask_partials + mask_eroded\<close> that is returned.
\<close>

definition mask_partials_of :: "Structure \<Rightarrow> ('z dose_or_image_scheme) \<Rightarrow> int \<Rightarrow> f64 arr3 \<Rightarrow>
    call list \<Rightarrow> f64 arr3 \<times> call list" where
  "mask_partials_of structure g sub_samples bmask lg =
     (let mask_boundary = mask_boundary_of bmask;
          nsamples = sub_samples ^ 3;
          boundary_idx = np_where mask_boundary;
          mask_partials = map_3 (\<lambda>_. F64 0) bmask
      in refine_boundary structure g (nat sub_samples) nsamples boundary_idx mask_partials lg)"

definition refine_mask :: "Structure \<Rightarrow> ('z dose_or_image_scheme) \<Rightarrow> int \<Rightarrow> f64 arr3 \<Rightarrow>
    call list \<Rightarrow> f64 arr3 \<times> call list" where
  "refine_mask structure g sub_samples bmask lg =
     (let mask_eroded = binary_erosion bmask
      in case mask_partials_of structure g sub_samples bmask lg of
           (mask_partials, lg') \<Rightarrow>
             (map2_3 (\<lambda>p e. fadd p (F64 (if e then 1 else 0))) mask_partials mask_eroded, lg'))"

definition make_segment_mask_for_grid :: "Structure \<Rightarrow> ('z dose_or_image_scheme) option \<Rightarrow> pyval \<Rightarrow>
    call list \<Rightarrow> (error + f64 arr3) \<times> call list" where
  "make_segment_mask_for_grid structure dose_or_image sub_samples lg =
     (case dose_or_image of
        None \<Rightarrow> (Inl (AssertionError ''A dose or image object is required to generate a mask.''), lg)
      | Some g \<Rightarrow>
         (case make_segment_mask_for_structure g structure lg of
            (Inl e, lg') \<Rightarrow> (Inl e, lg')
          | (Inr bmask, lg') \<Rightarrow>
             if sub_samples = PyNone then (Inr bmask, lg')
             else if \<not> type_is_int sub_samples
               then (Inl (AssertionError ''sub_samples must be an integer''), lg')
             else if \<not> int_value sub_samples > 1
               then (Inl (AssertionError ''sub_samples must be > 1''), lg')
             else
               (case refine_mask structure g (int_value sub_samples) bmask lg' of
                  (result, lg'') \<Rightarrow> (Inr result, lg''))))"

section \<open>Image and dose arrays\<close>

text \<open>
  The two-dimensional \<open>Int32\<close> buffer after \<open>GetVoxels(z, _buffer)\<close>, as it lies in
  memory: row-major, the entry \<open>[x, y]\<close> at \<open>x * YSize + y\<close>.
\<close>

definition voxel_buffer :: "('z dose_or_image_scheme) \<Rightarrow> nat \<Rightarrow> 32 word list" where
  "voxel_buffer g z =
     concat (map (\<lambda>x. map (\<lambda>y. GetVoxels g z x y) [0..<YSize g]) [0..<XSize g])"

definition reshape2 :: "'a list \<Rightarrow> nat \<times> nat \<Rightarrow> error + 'a list list" where
  "reshape2 flat shp = (case shp of (nx, ny) \<Rightarrow>
     if length flat = nx * ny
     then Inr (map (\<lambda>x. take ny (drop (x * ny) flat)) [0..<nx])
     else Inl ValueError)"

text \<open>\<open>_array[:, :, z] = plane\<close> for a plane of the shape of the first two axes.\<close>

definition set_plane :: "f64 arr3 \<Rightarrow> nat \<Rightarrow> f64 list list \<Rightarrow> f64 arr3" where
  "set_plane a z plane = map2 (map2 (\<lambda>r v. r[z := v])) a plane"

fun voxel_loop :: "('z dose_or_image_scheme) \<Rightarrow> nat list \<Rightarrow> f64 arr3 \<Rightarrow> error + f64 arr3" where
  "voxel_loop g [] a = Inr a"
| "voxel_loop g (z # zs) a =
     (case to_ndarray (voxel_buffer g z) c_int32 of
        Inl e \<Rightarrow> Inl e
      | Inr nd \<Rightarrow>
         (case reshape2 nd (XSize g, YSize g) of
            Inl e \<Rightarrow> Inl e
          | Inr plane \<Rightarrow>
              voxel_loop g zs (set_plane a z (map (map (to_float c_int32)) plane))))"

definition image_to_nparray :: "('z dose_or_image_scheme) \<Rightarrow> error + f64 arr3" where
  "image_to_nparray g =
     voxel_loop g [0..<ZSize g] (np_zeros (XSize g, YSize g, ZSize g))"

definition dose_to_nparray :: "Dose \<Rightarrow> error + f64 arr3" where
  "dose_to_nparray dose =
     (case image_to_nparray dose of
        Inl e \<Rightarrow> Inl e
      | Inr dose_array \<Rightarrow>
         (let scale = fsub (VoxelToDoseValue dose 1) (VoxelToDoseValue dose 0)
          in case py_truediv (VoxelToDoseValue dose 0) scale of
               Inl e \<Rightarrow> Inl e
             | Inr offset \<Rightarrow> Inr (map_3 (\<lambda>v. fadd (fmul scale v) offset) dose_array)))"

text \<open>\<open>dose_array[np.where(np.isnan(dose_array))] = 0.0\<close>\<close>

definition nan_to_zero :: "f64 arr3 \<Rightarrow> f64 arr3" where
  "nan_to_zero a = map_3 (\<lambda>v. if isnan v then F64 0 else v) a"

text \<open>The array of \<open>make_dose_for_grid\<close> before the NaN entries are replaced.\<close>

definition dose_array_for_grid :: "Dose \<Rightarrow> ('z dose_or_image_scheme) option \<Rightarrow> call list \<Rightarrow>
    (error + f64 arr3) \<times> call list" where
  "dose_array_for_grid dose img lg =
     (case img of
        Some im \<Rightarrow>
          (let row_buffer = replicate (ZSize im) (F64 0)
           in fill_in_profiles im (GetDoseProfile dose) row_buffer c_double None lg)
      | None \<Rightarrow> (dose_to_nparray dose, lg))"

definition make_dose_for_grid :: "Dose \<Rightarrow> ('z dose_or_image_scheme) option \<Rightarrow> call list \<Rightarrow>
    (error + f64 arr3) \<times> call list" where
  "make_dose_for_grid dose img lg =
     (case dose_array_for_grid dose img lg of
        (Inl e, lg') \<Rightarrow> (Inl e, lg')
      | (Inr dose_array, lg') \<Rightarrow> (Inr (nan_to_zero dose_array), lg'))"

section \<open>Grid geometry as the specification words it\<close>


text \<open>
  The end points accumulated across the scan, as the specification asks for:
  the start of the column \<open>(x, 0)\<close> is the origin plus the step along x, and each
  further column along y adds \<open>resolution_y*direction_y\<close> to the start of the one
  before it; the stop is the start plus \<open>(size_z - 1)*resolution_z*direction_z\<close>.
\<close>

fun scan_start :: "('z dose_or_image_scheme) \<Rightarrow> nat \<Rightarrow> nat \<Rightarrow> VVector" where
  "scan_start g x_index 0 =
     op_Addition (Origin g) (op_Multiply (round_double (real x_index * XRes g)) (XDirection g))"
| "scan_start g x_index (Suc y_index) =
     op_Addition (scan_start g x_index y_index) (op_Multiply (YRes g) (YDirection g))"

definition scan_stop :: "('z dose_or_image_scheme) \<Rightarrow> nat \<Rightarrow> nat \<Rightarrow> VVector" where
  "scan_stop g x_index y_index =
     op_Addition (scan_start g x_index y_index)
       (op_Multiply (round_double ((real (ZSize g) - 1) * ZRes g)) (ZDirection g))"



section \<open>Closed forms used to state the properties\<close>

text \<open>
  The buffers as the two scans allocate them: the row buffer has the length of the
  depth axis, and so has the intermediate buffer where there is one.
\<close>

definition buffers_ok :: "nat \<Rightarrow> 'a list \<Rightarrow> 'a list option \<Rightarrow> bool" where
  "buffers_ok nz row_buffer pre_buffer =
     (length row_buffer = nz \<and> (case pre_buffer of None \<Rightarrow> True | Some pre \<Rightarrow> length pre = nz))"

definition scan_row :: "('z dose_or_image_scheme) \<Rightarrow> 'a profile_fxn \<Rightarrow> 'a ctype \<Rightarrow> nat \<Rightarrow> nat \<Rightarrow> f64 list" where
  "scan_row g f dt x y =
     map (\<lambda>z. to_float dt (f (scan_start g x y) (scan_stop g x y) (ZSize g) z)) [0..<ZSize g]"

definition scan_calls :: "('z dose_or_image_scheme) \<Rightarrow> nat \<Rightarrow> nat \<Rightarrow> call list" where
  "scan_calls g i nx =
     concat (map (\<lambda>x. map (\<lambda>y. (scan_start g x y, scan_stop g x y, ZSize g)) [0..<YSize g]) [i..<nx])"

text \<open>
  The lateral offsets of the partial-volume refiner as the specification words them:
  \<open>n\<close> values evenly spaced over \<open>[-r/2, r/2]\<close>, both ends included; the depth
  segment of one lateral offset; and the number of samples inside the structure that
  the collaborator reports for a segment.
\<close>

definition lateral_offsets :: "real \<Rightarrow> nat \<Rightarrow> real list" where
  "lateral_offsets r n = map (\<lambda>i. - (r / 2) + real i * (r / (real n - 1))) [0..<n]"

definition depth_segment :: "real \<Rightarrow> real \<Rightarrow> real \<Rightarrow> real \<Rightarrow> nat \<Rightarrow> real \<Rightarrow> real \<Rightarrow> call" where
  "depth_segment x y z rz n xf yf =
     (VVector (x + xf) (y + yf) (z - rz / 2), VVector (x + xf) (y + yf) (z + rz / 2), n)"

definition depth_segments :: "real \<Rightarrow> real \<Rightarrow> real \<Rightarrow> real \<Rightarrow> real \<Rightarrow> real \<Rightarrow> nat \<Rightarrow> call list" where
  "depth_segments x y z rx ry rz n =
     concat (map (\<lambda>xf. map (\<lambda>yf. depth_segment x y z rz n xf yf) (lateral_offsets ry n))
       (lateral_offsets rx n))"

definition inside_samples :: "Structure \<Rightarrow> call \<Rightarrow> nat" where
  "inside_samples s c = (case c of (start, stop, n) \<Rightarrow>
     length (filter (\<lambda>i. GetSegmentProfile s start stop n i) [0..<n]))"


text \<open>
  The value that the refiner stores for the boundary voxel \<open>(ix, iy, iz)\<close>: the
  inside samples over the depth segments around the voxel centre, divided by
  \<open>n\<close> cubed.
\<close>

definition voxel_fraction :: "Structure \<Rightarrow> ('z dose_or_image_scheme) \<Rightarrow> nat \<Rightarrow> nat \<Rightarrow> nat \<Rightarrow> nat \<Rightarrow> f64" where
  "voxel_fraction s g n ix iy iz =
     F64 (real (\<Sum>c\<leftarrow>depth_segments (vx (Origin g) + real ix * XRes g)
                   (vy (Origin g) + real iy * YRes g) (vz (Origin g) + real iz * ZRes g)
                   (XRes g) (YRes g) (ZRes g) n. inside_samples s c) / real (n ^ 3))"

section \<open>Example inputs\<close>

text \<open>
  A dose grid of two voxels whose raw values are 0 and 1, with the reference doses
  \<open>dose(0) = 2\<close> and \<open>dose(1) = 4\<close>.
\<close>

definition example_dose :: Dose where
  "example_dose = \<lparr>Origin = VVector 0 0 0, XDirection = VVector 1 0 0,
     YDirection = VVector 0 1 0, ZDirection = VVector 0 0 1, XRes = 1, YRes = 1, ZRes = 1,
     XSize = 2, YSize = 1, ZSize = 1,
     GetVoxels = (\<lambda>z x y. of_nat x),
     VoxelToDoseValue = (\<lambda>i. F64 (2 + 2 * real_of_int i)),
     GetDoseProfile = (\<lambda>start stop n i. F64 0)\<rparr>"

text \<open>A structure that fills the half space \<open>x \<le> 0\<close>.\<close>

definition half_space :: Structure where
  "half_space = \<lparr>HasSegment = True, GetSegmentProfile = (\<lambda>start stop n i. vx start \<le> 0)\<rparr>"

text \<open>An axis-aligned grid of two columns of two voxels each, and a structure without segment data.\<close>

definition example_grid :: dose_or_image where
  "example_grid = \<lparr>Origin = VVector 0 0 0, XDirection = VVector 1 0 0,
     YDirection = VVector 0 1 0, ZDirection = VVector 0 0 1, XRes = 1, YRes = 1, ZRes = 3,
     XSize = 2, YSize = 1, ZSize = 2, GetVoxels = (\<lambda>z x y. 0)\<rparr>"

definition no_segment :: Structure where
  "no_segment = \<lparr>HasSegment = False, GetSegmentProfile = (\<lambda>start stop n i. False)\<rparr>"

text \<open>
  A grid of two voxels along each axis, and a dose whose profile reports an
  undefined value at the voxel \<open>(1, 1, 1)\<close> and 5 elsewhere.
\<close>

definition cube_grid :: dose_or_image where
  "cube_grid = \<lparr>Origin = VVector 0 0 0, XDirection = VVector 1 0 0,
     YDirection = VVector 0 1 0, ZDirection = VVector 0 0 1, XRes = 1, YRes = 1, ZRes = 1,
     XSize = 2, YSize = 2, ZSize = 2, GetVoxels = (\<lambda>z x y. 0)\<rparr>"

definition nan_dose :: Dose where
  "nan_dose = \<lparr>Origin = VVector 0 0 0, XDirection = VVector 1 0 0,
     YDirection = VVector 0 1 0, ZDirection = VVector 0 0 1, XRes = 1, YRes = 1, ZRes = 1,
     XSize = 2, YSize = 2, ZSize = 2, GetVoxels = (\<lambda>z x y. 0),
     VoxelToDoseValue = (\<lambda>i. F64 (real_of_int i)),
     GetDoseProfile = (\<lambda>start stop n i. if start = VVector 1 1 0 \<and> i = 1 then NaN else F64 5)\<rparr>"


text \<open>A row of three voxels along x.\<close>

definition row_grid :: dose_or_image where
  "row_grid = \<lparr>Origin = VVector 0 0 0, XDirection = VVector 1 0 0,
     YDirection = VVector 0 1 0, ZDirection = VVector 0 0 1, XRes = 1, YRes = 1, ZRes = 1,
     XSize = 3, YSize = 1, ZSize = 1, GetVoxels = (\<lambda>z x y. 0)\<rparr>"

section \<open>The scan: helper lemmas\<close>

lemma round_double_0 [simp]: "round_double 0 = 0"
  by (simp add: round_double_def)

lemma round_double_1 [simp]: "round_double 1 = 1"
  by code_simp

lemma round_double_2 [simp]: "round_double 2 = 2"
  by code_simp

lemma round_double_3 [simp]: "round_double 3 = 3"
  by code_simp

text \<open>
  Known values of the rounding: the double nearest to one tenth, a tie between two
  doubles that goes to the even significand, and the sum \<open>0.1 + 0.2\<close>.
\<close>

lemma round_double_examples:
  "round_double (1 / 10) = 3602879701896397 / 36028797018963968"
  "round_double (- (1 / 10)) = - (3602879701896397 / 36028797018963968)"
  "round_double (9007199254740993) = 9007199254740992"
  "round_double (9007199254740995) = 9007199254740996"
  "round_double (round_double (1 / 10) + round_double (2 / 10)) = 5404319552844596 / 18014398509481984"
  by code_simp+

lemma to_ndarray_ok [simp]: "to_ndarray src dtype = Inr src"
  by (simp add: to_ndarray_def to_ndarray_with_def SAFE_MODE_def)

lemma length_call_profile [simp]: "length (call_profile f a b buf) = length buf"
  by (simp add: call_profile_def)

lemma nth_call_profile [simp]: "i < length buf \<Longrightarrow> call_profile f a b buf ! i = f a b (length buf) i"
  by (simp add: call_profile_def)

lemma get_profile_ok:
  assumes "buffers_ok nz rb pb"
  shows "get_profile f rb pb a b = (Inr (map (f a b nz) [0..<nz]), (a, b, nz))"
  using assms
  by (cases pb) (simp_all add: get_profile_def buffers_ok_def call_profile_def CopyTo_def)

lemma upd2_nth: "(a[x := (a ! x)[j := r]]) ! x ! y =
    (if x < length a \<and> j < length (a ! x) \<and> y = j then r else a ! x ! y)"
  by (cases "x < length a"; cases "j < length (a ! x)"; cases "y = j"; simp add: list_update_beyond)

lemma upd2_len: "length ((a[x := (a ! x)[j := r]]) ! x) = length (a ! x)"
  by (cases "x < length a"; simp add: list_update_beyond)

lemma upd2_other: "x' \<noteq> x \<Longrightarrow> (a[x := v]) ! x' = a ! x'"
  by simp

lemma scan_y_upt:
  assumes "buffers_ok nz rb pb"
    and acc: "\<forall>j. S (Suc j) = op_Addition (S j) ys"
  shows "\<exists>a' rb'. scan_y nz f dt pb zd ys x [j..<ny] a (S j) rb lg =
          (Inr (a', S (max j ny), rb'),
           lg @ map (\<lambda>y. (S y, op_Addition (S y) zd, nz)) [j..<ny])
        \<and> buffers_ok nz rb' pb
        \<and> length a' = length a
        \<and> (\<forall>x'. x' \<noteq> x \<longrightarrow> a' ! x' = a ! x')
        \<and> length (a' ! x) = length (a ! x)
        \<and> (\<forall>y. a' ! x ! y = (if j \<le> y \<and> y < ny \<and> x < length a \<and> y < length (a ! x)
                 then map (\<lambda>z. to_float dt (f (S y) (op_Addition (S y) zd) nz z)) [0..<nz]
                 else a ! x ! y))"
  using assms(1)
proof (induction "ny - j" arbitrary: j a rb lg)
  case 0
  then show ?case by (auto simp: max_def)
next
  case (Suc k)
  then have jl: "j < ny" by simp
  have up: "[j..<ny] = j # [Suc j..<ny]" using jl by (simp add: upt_conv_Cons)
  let ?row = "map (f (S j) (op_Addition (S j) zd) nz) [0..<nz]"
  let ?a1 = "a[x := (a ! x)[j := map (to_float dt) ?row]]"
  let ?lg1 = "lg @ [(S j, op_Addition (S j) zd, nz)]"
  have bo: "buffers_ok nz ?row pb" using Suc.prems by (simp add: buffers_ok_def)
  have k: "k = ny - Suc j" using Suc.hyps by simp
  from Suc.hyps(1)[OF k bo, of ?a1 ?lg1]
  obtain a' rb' where IH:
    "scan_y nz f dt pb zd ys x [Suc j..<ny] ?a1 (S (Suc j)) ?row ?lg1 =
          (Inr (a', S (max (Suc j) ny), rb'),
           ?lg1 @ map (\<lambda>y. (S y, op_Addition (S y) zd, nz)) [Suc j..<ny])"
    "buffers_ok nz rb' pb" "length a' = length ?a1" "\<forall>x'. x' \<noteq> x \<longrightarrow> a' ! x' = ?a1 ! x'"
    "length (a' ! x) = length (?a1 ! x)"
    "\<forall>y. a' ! x ! y = (if Suc j \<le> y \<and> y < ny \<and> x < length ?a1 \<and> y < length (?a1 ! x)
                 then map (\<lambda>z. to_float dt (f (S y) (op_Addition (S y) zd) nz z)) [0..<nz]
                 else ?a1 ! x ! y)"
    by blast
  have mx: "max (Suc j) ny = max j ny" using jl by simp
  have nxt: "op_Addition (S j) ys = S (Suc j)" using acc by simp
  have eq: "scan_y nz f dt pb zd ys x [j..<ny] a (S j) rb lg =
     scan_y nz f dt pb zd ys x [Suc j..<ny] ?a1 (S (Suc j)) ?row ?lg1"
    unfolding up using get_profile_ok[OF Suc.prems, of f "S j" "op_Addition (S j) zd"]
    by (simp add: set_column_def nxt del: upt_Suc)
  have c1: "scan_y nz f dt pb zd ys x [j..<ny] a (S j) rb lg =
          (Inr (a', S (max j ny), rb'),
           lg @ map (\<lambda>y. (S y, op_Addition (S y) zd, nz)) [j..<ny])"
    unfolding eq IH(1) mx by (simp add: up)
  have c3: "length a' = length a" using IH(3) by simp
  have c4: "\<forall>x'. x' \<noteq> x \<longrightarrow> a' ! x' = a ! x'" using IH(4) by (simp add: upd2_other)
  have c5: "length (a' ! x) = length (a ! x)" using IH(5) by (simp only: upd2_len)
  have c6: "\<forall>y. a' ! x ! y = (if j \<le> y \<and> y < ny \<and> x < length a \<and> y < length (a ! x)
                 then map (\<lambda>z. to_float dt (f (S y) (op_Addition (S y) zd) nz z)) [0..<nz]
                 else a ! x ! y)"
  proof
    fix y
    show "a' ! x ! y = (if j \<le> y \<and> y < ny \<and> x < length a \<and> y < length (a ! x)
                 then map (\<lambda>z. to_float dt (f (S y) (op_Addition (S y) zd) nz z)) [0..<nz]
                 else a ! x ! y)"
      using IH(6)[rule_format, of y] jl
      by (cases "y = j") (auto simp: upd2_nth upd2_len)
  qed
  show ?case using c1 IH(2) c3 c4 c5 c6 by blast
qed

lemma scan_x_upt:
  assumes "buffers_ok (ZSize g) rb pb"
    and "\<forall>x < length a. length (a ! x) = YSize g"
  shows "\<exists>a'. scan_x g f dt pb
            (op_Multiply (round_double ((real (ZSize g) - 1) * ZRes g)) (ZDirection g))
            (op_Multiply (YRes g) (YDirection g)) [i..<nx] a rb lg =
          (Inr a', lg @ scan_calls g i nx)
        \<and> length a' = length a
        \<and> (\<forall>x. length (a' ! x) = length (a ! x))
        \<and> (\<forall>x y. a' ! x ! y = (if i \<le> x \<and> x < nx \<and> x < length a \<and> y < YSize g
                 then scan_row g f dt x y else a ! x ! y))"
  using assms
proof (induction "nx - i" arbitrary: i a rb lg)
  case 0
  then show ?case by (auto simp: scan_calls_def)
next
  case (Suc k)
  then have il: "i < nx" by simp
  have up: "[i..<nx] = i # [Suc i..<nx]" using il by (simp add: upt_conv_Cons)
  let ?zd = "op_Multiply (round_double ((real (ZSize g) - 1) * ZRes g)) (ZDirection g)"
  let ?ys = "op_Multiply (YRes g) (YDirection g)"
  let ?S = "scan_start g i"
  have acc: "\<forall>j. ?S (Suc j) = op_Addition (?S j) ?ys" by simp
  have s0: "?S 0 = op_Addition (Origin g) (op_Multiply (round_double (real i * XRes g)) (XDirection g))"
    by simp
  from scan_y_upt[OF Suc.prems(1) acc, where f=f and dt=dt and zd="?zd" and x=i and j=0
        and ny="YSize g" and a=a and lg=lg]
  obtain a1 rb1 where Y:
    "scan_y (ZSize g) f dt pb ?zd ?ys i [0..<YSize g] a (?S 0) rb lg =
       (Inr (a1, ?S (max 0 (YSize g)), rb1),
        lg @ map (\<lambda>y. (?S y, op_Addition (?S y) ?zd, ZSize g)) [0..<YSize g])"
    "buffers_ok (ZSize g) rb1 pb" "length a1 = length a"
    "\<forall>x'. x' \<noteq> i \<longrightarrow> a1 ! x' = a ! x'" "length (a1 ! i) = length (a ! i)"
    "\<forall>y. a1 ! i ! y = (if 0 \<le> y \<and> y < YSize g \<and> i < length a \<and> y < length (a ! i)
          then map (\<lambda>z. to_float dt (f (?S y) (op_Addition (?S y) ?zd) (ZSize g) z)) [0..<ZSize g]
          else a ! i ! y)"
    by blast
  have ce: "\<And>y. op_Addition (scan_start g i y) ?zd = scan_stop g i y"
    by (simp add: scan_stop_def)
  have len1: "\<forall>x. length (a1 ! x) = length (a ! x)"
    using Y(4,5) by metis
  have pl1: "\<forall>x < length a1. length (a1 ! x) = YSize g"
    using len1 Y(3) Suc.prems(2) by simp
  have k: "k = nx - Suc i" using Suc.hyps by simp
  let ?lg1 = "lg @ map (\<lambda>y. (scan_start g i y, scan_stop g i y, ZSize g)) [0..<YSize g]"
  from Suc.hyps(1)[OF k Y(2) pl1, of ?lg1]
  obtain a' where IH:
    "scan_x g f dt pb ?zd ?ys [Suc i..<nx] a1 rb1 ?lg1 = (Inr a', ?lg1 @ scan_calls g (Suc i) nx)"
    "length a' = length a1" "\<forall>x. length (a' ! x) = length (a1 ! x)"
    "\<forall>x y. a' ! x ! y = (if Suc i \<le> x \<and> x < nx \<and> x < length a1 \<and> y < YSize g
                 then scan_row g f dt x y else a1 ! x ! y)"
    by blast
  have sc: "scan_calls g i nx =
      map (\<lambda>y. (scan_start g i y, scan_stop g i y, ZSize g)) [0..<YSize g] @ scan_calls g (Suc i) nx"
    by (simp add: scan_calls_def up)
  have Y1: "scan_y (ZSize g) f dt pb ?zd ?ys i [0..<YSize g] a
              (op_Addition (Origin g) (op_Multiply (round_double (real i * XRes g)) (XDirection g)))
              rb lg = (Inr (a1, ?S (YSize g), rb1), ?lg1)"
    using Y(1) by (simp add: ce)
  have c1: "scan_x g f dt pb ?zd ?ys [i..<nx] a rb lg = (Inr a', lg @ scan_calls g i nx)"
    unfolding up sc using Y1 IH(1) by simp
  have c2: "length a' = length a" using IH(2) Y(3) by simp
  have c3: "\<forall>x. length (a' ! x) = length (a ! x)" using IH(3) len1 by simp
  have c4: "\<forall>x y. a' ! x ! y = (if i \<le> x \<and> x < nx \<and> x < length a \<and> y < YSize g
                 then scan_row g f dt x y else a ! x ! y)"
  proof (intro allI)
    fix x y
    show "a' ! x ! y = (if i \<le> x \<and> x < nx \<and> x < length a \<and> y < YSize g
                 then scan_row g f dt x y else a ! x ! y)"
    proof (cases "x = i")
      case True
      have "a' ! i ! y = a1 ! i ! y" using IH(4)[rule_format, of i y] by simp
      also have "\<dots> = (if i < length a \<and> y < YSize g then scan_row g f dt i y else a ! i ! y)"
        using Y(6)[rule_format, of y] Suc.prems(2) by (auto simp: ce scan_row_def)
      finally show ?thesis using True il by simp
    next
      case False
      then have "a1 ! x = a ! x" using Y(4) by simp
      then show ?thesis using IH(4)[rule_format, of x y] False Y(3) by auto
    qed
  qed
  show ?case using c1 c2 c3 c4 by blast
qed

lemma np_zeros_planes: "\<forall>x < length (np_zeros (nx, ny, nz)). length (np_zeros (nx, ny, nz) ! x) = ny"
  by (simp add: np_zeros_def)

lemma fill_in_profiles_result:
  assumes "buffers_ok (ZSize g) rb pb"
  shows "\<exists>a. fill_in_profiles g f rb dt pb lg = (Inr a, lg @ scan_calls g 0 (XSize g))
     \<and> length a = XSize g
     \<and> (\<forall>x < XSize g. length (a ! x) = YSize g)
     \<and> (\<forall>x < XSize g. \<forall>y < YSize g. a ! x ! y = scan_row g f dt x y)"
proof -
  let ?z = "np_zeros (XSize g, YSize g, ZSize g)"
  from scan_x_upt[OF assms np_zeros_planes, where f=f and dt=dt and i=0 and nx="XSize g" and lg=lg]
  obtain a' where A: "scan_x g f dt pb
            (op_Multiply (round_double ((real (ZSize g) - 1) * ZRes g)) (ZDirection g))
            (op_Multiply (YRes g) (YDirection g)) [0..<XSize g] ?z rb lg =
          (Inr a', lg @ scan_calls g 0 (XSize g))"
     "length a' = length ?z" "\<forall>x. length (a' ! x) = length (?z ! x)"
     "\<forall>x y. a' ! x ! y = (if 0 \<le> x \<and> x < XSize g \<and> x < length ?z \<and> y < YSize g
                 then scan_row g f dt x y else ?z ! x ! y)"
    by blast
  have l: "length ?z = XSize g" by (simp add: np_zeros_def)
  have "fill_in_profiles g f rb dt pb lg = (Inr a', lg @ scan_calls g 0 (XSize g))"
    using A(1) by (simp add: fill_in_profiles_def)
  moreover have "length a' = XSize g" using A(2) l by simp
  moreover have "\<forall>x < XSize g. length (a' ! x) = YSize g"
    using A(3) by (simp add: np_zeros_def)
  moreover have "\<forall>x < XSize g. \<forall>y < YSize g. a' ! x ! y = scan_row g f dt x y"
    using A(4) l by simp
  ultimately show ?thesis by blast
qed



lemma length_scan_calls: "length (scan_calls g 0 nx) = nx * YSize g"
  by (simp add: scan_calls_def length_concat o_def sum_list_triv)

lemma mask_for_structure_result:
  assumes "HasSegment s"
  shows "\<exists>a. make_segment_mask_for_structure g s lg = (Inr a, lg @ scan_calls g 0 (XSize g))
     \<and> length a = XSize g
     \<and> (\<forall>x < XSize g. length (a ! x) = YSize g)
     \<and> (\<forall>x < XSize g. \<forall>y < YSize g. a ! x ! y = scan_row g (GetSegmentProfile s) c_bool x y)"
proof -
  have b: "buffers_ok (ZSize g) (replicate (ZSize g) False) (Some (replicate (ZSize g) False))"
    by (simp add: buffers_ok_def)
  show ?thesis
    using fill_in_profiles_result[OF b, of "GetSegmentProfile s" c_bool lg] assms
    by (simp add: make_segment_mask_for_structure_def)
qed

section \<open>Arrays: helper lemmas\<close>

lemma nth_map_3:
  "x < length u \<Longrightarrow> y < length (u ! x) \<Longrightarrow> z < length (u ! x ! y) \<Longrightarrow>
     map_3 f u ! x ! y ! z = f (u ! x ! y ! z)"
  by (simp add: map_3_def)

lemma length_map_3: "length (map_3 f u) = length u"
  by (simp add: map_3_def)

lemma length_map_3_1: "x < length u \<Longrightarrow> length (map_3 f u ! x) = length (u ! x)"
  by (simp add: map_3_def)

lemma length_map_3_2: "x < length u \<Longrightarrow> y < length (u ! x) \<Longrightarrow> length (map_3 f u ! x ! y) = length (u ! x ! y)"
  by (simp add: map_3_def)

section \<open>The refiner: helper lemmas\<close>

lemma count_inside_eq: "count_inside bs f = f + int (length (filter (\<lambda>b. b) bs))"
  by (induction bs arbitrary: f) auto

lemma count_inside_profile:
  "count_inside (call_profile (GetSegmentProfile s) a b (replicate n False)) f
     = f + int (inside_samples s (a, b, n))"
  by (simp add: count_inside_eq call_profile_def inside_samples_def filter_map o_def)

lemma sample_yf_eq:
  "sample_yf s n x y z rz xf yfs f lg =
     (f + (\<Sum>yf\<leftarrow>yfs. int (inside_samples s (depth_segment x y z rz n xf yf))),
      lg @ map (depth_segment x y z rz n xf) yfs)"
proof (induction yfs arbitrary: f lg)
  case Nil
  show ?case by simp
next
  case (Cons yf yfs)
  show ?case
    by (simp add: Let_def Cons.IH count_inside_profile depth_segment_def)
qed

lemma np_linspace_offsets: "1 < n \<Longrightarrow> np_linspace (- (r / 2)) (r / 2) n = lateral_offsets r n"
  by (simp add: np_linspace_def lateral_offsets_def)

lemma sample_xf_eq:
  assumes "1 < n"
  shows "sample_xf s n x y z ry rz xfs f lg =
     (f + (\<Sum>c\<leftarrow>concat (map (\<lambda>xf. map (depth_segment x y z rz n xf) (lateral_offsets ry n)) xfs).
              int (inside_samples s c)),
      lg @ concat (map (\<lambda>xf. map (depth_segment x y z rz n xf) (lateral_offsets ry n)) xfs))"
proof (induction xfs arbitrary: f lg)
  case Nil
  show ?case by simp
next
  case (Cons xf xfs)
  show ?case
    by (simp add: sample_yf_eq np_linspace_offsets[OF assms] Cons.IH o_def)
qed

lemma refine_voxel_eq:
  assumes "1 < n"
  shows "refine_voxel s n ns x y z rx ry rz lg =
     (F64 (real_of_int (\<Sum>c\<leftarrow>depth_segments x y z rx ry rz n. int (inside_samples s c)) / real_of_int ns),
      lg @ depth_segments x y z rx ry rz n)"
  by (simp add: refine_voxel_def sample_xf_eq[OF assms] np_linspace_offsets[OF assms] depth_segments_def)

lemma inside_samples_le: "inside_samples s (a, b, n) \<le> n"
  unfolding inside_samples_def using length_filter_le[of _ "[0..<n]"] by simp

lemma length_lateral_offsets [simp]: "length (lateral_offsets r n) = n"
  by (simp add: lateral_offsets_def)

lemma length_depth_segments: "length (depth_segments x y z rx ry rz n) = n * n"
  by (simp add: depth_segments_def length_concat o_def sum_list_triv)

lemma depth_segments_len: "c \<in> set (depth_segments x y z rx ry rz n) \<Longrightarrow> snd (snd c) = n"
  by (auto simp: depth_segments_def depth_segment_def)

lemma total_inside_le:
  "(\<Sum>c\<leftarrow>depth_segments x y z rx ry rz n. int (inside_samples s c)) \<le> int (n * n * n)"
proof -
  have "(\<Sum>c\<leftarrow>depth_segments x y z rx ry rz n. int (inside_samples s c))
      \<le> (\<Sum>c\<leftarrow>depth_segments x y z rx ry rz n. int n)"
  proof (rule sum_list_mono)
    fix c assume "c \<in> set (depth_segments x y z rx ry rz n)"
    then have "snd (snd c) = n" by (rule depth_segments_len)
    then show "int (inside_samples s c) \<le> int n"
      using inside_samples_le[of s "fst c" "fst (snd c)" n] by (cases c) auto
  qed
  also have "\<dots> = int (n * n * n)"
    by (simp add: sum_list_triv length_depth_segments)
  finally show ?thesis .
qed





lemma sum_list_int_real: "real_of_int (\<Sum>c\<leftarrow>xs. int (f c)) = real (sum_list (map f xs))"
  by (induction xs) simp_all




section \<open>The mask refinement: helper lemmas\<close>

lemma has_shape_iff:
  "has_shape a (nx, ny, nz) \<longleftrightarrow>
     length a = nx \<and> (\<forall>x < nx. length (a ! x) = ny \<and> (\<forall>y < ny. length (a ! x ! y) = nz))"
  by (auto simp: has_shape_def list_all_length)

lemma has_shape_tabulate_like:
  "has_shape m (nx, ny, nz) \<Longrightarrow> has_shape (tabulate_like m f) (nx, ny, nz)"
  by (simp add: has_shape_iff tabulate_like_def)

lemma nth_tabulate_like:
  "has_shape m (nx, ny, nz) \<Longrightarrow> x < nx \<Longrightarrow> y < ny \<Longrightarrow> z < nz \<Longrightarrow>
     tabulate_like m f ! x ! y ! z = f x y z"
  by (simp add: has_shape_iff tabulate_like_def)

lemma has_shape_map_3: "has_shape m shp \<Longrightarrow> has_shape (map_3 f m) shp"
  by (cases shp) (simp add: has_shape_iff map_3_def)

lemma has_shape_map2_3:
  "has_shape a (nx, ny, nz) \<Longrightarrow> has_shape b (nx, ny, nz) \<Longrightarrow> has_shape (map2_3 f a b) (nx, ny, nz)"
  by (simp add: has_shape_iff map2_3_def)

lemma nth_map2_3:
  "has_shape a (nx, ny, nz) \<Longrightarrow> has_shape b (nx, ny, nz) \<Longrightarrow> x < nx \<Longrightarrow> y < ny \<Longrightarrow> z < nz \<Longrightarrow>
     map2_3 f a b ! x ! y ! z = f (a ! x ! y ! z) (b ! x ! y ! z)"
  by (simp add: has_shape_iff map2_3_def)

lemma length_set_voxel: "length (set_voxel a ix iy iz v) = length a"
  by (simp add: set_voxel_def)

lemma length_set_voxel_1: "length (set_voxel a ix iy iz v ! x) = length (a ! x)"
  by (cases "x = ix"; cases "ix < length a"; simp add: set_voxel_def list_update_beyond)

lemma length_set_voxel_2: "length (set_voxel a ix iy iz v ! x ! y) = length (a ! x ! y)"
  by (cases "x = ix"; cases "ix < length a"; cases "y = iy"; cases "iy < length (a ! ix)";
      simp add: set_voxel_def list_update_beyond)

lemma has_shape_set_voxel:
  "has_shape a (nx, ny, nz) \<Longrightarrow> has_shape (set_voxel a ix iy iz v) (nx, ny, nz)"
  by (simp add: has_shape_iff length_set_voxel length_set_voxel_1 length_set_voxel_2)

lemma nth_set_voxel:
  "has_shape a (nx, ny, nz) \<Longrightarrow> x < nx \<Longrightarrow> y < ny \<Longrightarrow> z < nz \<Longrightarrow>
     set_voxel a ix iy iz v ! x ! y ! z = (if x = ix \<and> y = iy \<and> z = iz then v else a ! x ! y ! z)"
  by (cases "x = ix"; cases "y = iy"; cases "z = iz"; simp add: has_shape_iff set_voxel_def)

lemma int_sum_list_map: "int (sum_list (map f xs)) = (\<Sum>c\<leftarrow>xs. int (f c))"
  by (induction xs) simp_all

lemma in_np_where:
  "(x, y, z) \<in> set (np_where m) \<longleftrightarrow>
     x < length m \<and> y < length (m ! x) \<and> z < length (m ! x ! y) \<and> m ! x ! y ! z"
  by (auto simp: np_where_def image_iff)

lemma in_np_where_shape:
  "has_shape m (nx, ny, nz) \<Longrightarrow>
     (x, y, z) \<in> set (np_where m) \<longleftrightarrow> x < nx \<and> y < ny \<and> z < nz \<and> m ! x ! y ! z"
  by (auto simp: in_np_where has_shape_iff)

lemma fst_refine_voxel:
  assumes "1 < n"
  shows "refine_voxel s n (int n ^ 3) (vx (Origin g) + real ix * XRes g)
           (vy (Origin g) + real iy * YRes g) (vz (Origin g) + real iz * ZRes g)
           (XRes g) (YRes g) (ZRes g) lg
         = (voxel_fraction s g n ix iy iz,
            lg @ depth_segments (vx (Origin g) + real ix * XRes g)
                   (vy (Origin g) + real iy * YRes g) (vz (Origin g) + real iz * ZRes g)
                   (XRes g) (YRes g) (ZRes g) n)"
  by (simp add: refine_voxel_eq[OF assms] voxel_fraction_def sum_list_int_real)

lemma refine_boundary_result:
  assumes "1 < n" and "has_shape p0 (nx, ny, nz)"
    and "\<forall>(ix, iy, iz) \<in> set idxs. ix < nx \<and> iy < ny \<and> iz < nz"
  shows "has_shape (fst (refine_boundary s g n (int n ^ 3) idxs p0 lg)) (nx, ny, nz)
       \<and> (\<forall>x < nx. \<forall>y < ny. \<forall>z < nz.
            fst (refine_boundary s g n (int n ^ 3) idxs p0 lg) ! x ! y ! z
              = (if (x, y, z) \<in> set idxs then voxel_fraction s g n x y z else p0 ! x ! y ! z))"
  using assms(2,3)
proof (induction idxs arbitrary: p0 lg)
  case Nil
  then show ?case by simp
next
  case (Cons i idxs)
  obtain ix iy iz where i: "i = (ix, iy, iz)" by (cases i) auto
  let ?p1 = "set_voxel p0 ix iy iz (voxel_fraction s g n ix iy iz)"
  let ?lg1 = "lg @ depth_segments (vx (Origin g) + real ix * XRes g)
                   (vy (Origin g) + real iy * YRes g) (vz (Origin g) + real iz * ZRes g)
                   (XRes g) (YRes g) (ZRes g) n"
  have step: "refine_boundary s g n (int n ^ 3) (i # idxs) p0 lg
        = refine_boundary s g n (int n ^ 3) idxs ?p1 ?lg1"
    by (simp add: i Let_def fst_refine_voxel[OF assms(1)])
  have sh1: "has_shape ?p1 (nx, ny, nz)" using Cons.prems(1) by (rule has_shape_set_voxel)
  have rest: "\<forall>(ix, iy, iz) \<in> set idxs. ix < nx \<and> iy < ny \<and> iz < nz"
    using Cons.prems(2) by simp
  note IH = Cons.IH[OF sh1 rest, of ?lg1]
  show ?case
    unfolding step
  proof (intro conjI allI impI)
    show "has_shape (fst (refine_boundary s g n (int n ^ 3) idxs ?p1 ?lg1)) (nx, ny, nz)"
      using IH by simp
  next
    fix x y z assume r: "x < nx" "y < ny" "z < nz"
    have "fst (refine_boundary s g n (int n ^ 3) idxs ?p1 ?lg1) ! x ! y ! z
        = (if (x, y, z) \<in> set idxs then voxel_fraction s g n x y z else ?p1 ! x ! y ! z)"
      using IH r by simp
    also have "?p1 ! x ! y ! z = (if x = ix \<and> y = iy \<and> z = iz then voxel_fraction s g n ix iy iz else p0 ! x ! y ! z)"
      using nth_set_voxel[OF Cons.prems(1) r] .
    finally show "fst (refine_boundary s g n (int n ^ 3) idxs ?p1 ?lg1) ! x ! y ! z
        = (if (x, y, z) \<in> set (i # idxs) then voxel_fraction s g n x y z else p0 ! x ! y ! z)"
      by (auto simp: i)
  qed
qed

lemma voxel_fraction_bounds:
  assumes "0 < n"
  shows "\<exists>r. voxel_fraction s g n ix iy iz = F64 r \<and> 0 \<le> r \<and> r \<le> 1"
proof -
  let ?t = "\<Sum>c\<leftarrow>depth_segments (vx (Origin g) + real ix * XRes g)
                   (vy (Origin g) + real iy * YRes g) (vz (Origin g) + real iz * ZRes g)
                   (XRes g) (YRes g) (ZRes g) n. inside_samples s c"
  have "int ?t \<le> int (n * n * n)"
    using total_inside_le[of s "vx (Origin g) + real ix * XRes g"
                   "vy (Origin g) + real iy * YRes g" "vz (Origin g) + real iz * ZRes g"
                   "XRes g" "YRes g" "ZRes g" n]
    by (simp add: int_sum_list_map)
  then have "?t \<le> n * n * n" by (simp only: of_nat_le_iff)
  then have le: "?t \<le> n ^ 3" by (simp add: power3_eq_cube)
  have pos: "0 < real (n ^ 3)" using assms by simp
  have "real ?t / real (n ^ 3) \<le> 1"
    using le pos by (simp add: divide_le_eq_1)
  then show ?thesis by (simp add: voxel_fraction_def)
qed

lemma erosion_imp_set:
  assumes "has_shape m (nx, ny, nz)" "x < nx" "y < ny" "z < nz"
    and "binary_erosion m ! x ! y ! z"
  shows "voxel_set m (int x) (int y) (int z)"
  using assms(5)
  by (simp add: binary_erosion_def structuring_element_def nth_tabulate_like[OF assms(1-4)])

lemma set_imp_dilation:
  assumes "has_shape m (nx, ny, nz)" "x < nx" "y < ny" "z < nz"
    and "voxel_set m (int x) (int y) (int z)"
  shows "binary_dilation m ! x ! y ! z"
  using assms(5)
  by (simp add: binary_dilation_def structuring_element_def nth_tabulate_like[OF assms(1-4)])

lemma boundary_iff:
  assumes "has_shape m (nx, ny, nz)" "x < nx" "y < ny" "z < nz"
  shows "mask_boundary_of m ! x ! y ! z \<longleftrightarrow>
           binary_dilation m ! x ! y ! z \<and> \<not> binary_erosion m ! x ! y ! z"
proof -
  have d: "has_shape (binary_dilation m) (nx, ny, nz)"
    unfolding binary_dilation_def using assms(1) by (rule has_shape_tabulate_like)
  have e: "has_shape (binary_erosion m) (nx, ny, nz)"
    unfolding binary_erosion_def using assms(1) by (rule has_shape_tabulate_like)
  have "mask_boundary_of m ! x ! y ! z \<longleftrightarrow> binary_dilation m ! x ! y ! z \<noteq> binary_erosion m ! x ! y ! z"
    unfolding mask_boundary_of_def using nth_map2_3[OF d e assms(2-4)] by simp
  then show ?thesis
    using erosion_imp_set[OF assms] set_imp_dilation[OF assms] by blast
qed

lemma mask_partials_result:
  assumes "1 < n" and "has_shape bmask (nx, ny, nz)"
  shows "has_shape (fst (mask_partials_of s g n bmask lg)) (nx, ny, nz)
       \<and> (\<forall>x < nx. \<forall>y < ny. \<forall>z < nz.
            fst (mask_partials_of s g n bmask lg) ! x ! y ! z
              = (if mask_boundary_of bmask ! x ! y ! z then voxel_fraction s g (nat n) x y z else F64 0))"
proof -
  have n1: "1 < nat n" using assms(1) by simp
  have n3: "n ^ 3 = int (nat n) ^ 3" using assms(1) by simp
  have d: "has_shape (binary_dilation bmask) (nx, ny, nz)"
    unfolding binary_dilation_def using assms(2) by (rule has_shape_tabulate_like)
  have e: "has_shape (binary_erosion bmask) (nx, ny, nz)"
    unfolding binary_erosion_def using assms(2) by (rule has_shape_tabulate_like)
  have b: "has_shape (mask_boundary_of bmask) (nx, ny, nz)"
    unfolding mask_boundary_of_def using d e by (rule has_shape_map2_3)
  have z: "has_shape (map_3 (\<lambda>_. F64 0) bmask) (nx, ny, nz)"
    using assms(2) by (rule has_shape_map_3)
  have idx: "\<forall>(ix, iy, iz) \<in> set (np_where (mask_boundary_of bmask)). ix < nx \<and> iy < ny \<and> iz < nz"
    using in_np_where_shape[OF b] by auto
  have z0: "\<And>x y z. x < nx \<Longrightarrow> y < ny \<Longrightarrow> z < nz \<Longrightarrow> map_3 (\<lambda>_. F64 0) bmask ! x ! y ! z = F64 0"
    using assms(2) by (simp add: has_shape_iff nth_map_3)
  have eq: "mask_partials_of s g n bmask lg =
      refine_boundary s g (nat n) (int (nat n) ^ 3) (np_where (mask_boundary_of bmask))
        (map_3 (\<lambda>_. F64 0) bmask) lg"
    by (simp add: mask_partials_of_def Let_def n3)
  show ?thesis
    unfolding eq
    using refine_boundary_result[OF n1 z idx, of s g lg] in_np_where_shape[OF b] z0
    by simp
qed

lemma refine_mask_result:
  assumes "1 < n" and "has_shape bmask (nx, ny, nz)"
  shows "has_shape (fst (refine_mask s g n bmask lg)) (nx, ny, nz)
       \<and> (\<forall>x < nx. \<forall>y < ny. \<forall>z < nz.
            fst (refine_mask s g n bmask lg) ! x ! y ! z
              = fadd (fst (mask_partials_of s g n bmask lg) ! x ! y ! z)
                     (F64 (if binary_erosion bmask ! x ! y ! z then 1 else 0)))"
proof -
  have e: "has_shape (binary_erosion bmask) (nx, ny, nz)"
    unfolding binary_erosion_def using assms(2) by (rule has_shape_tabulate_like)
  have p: "has_shape (fst (mask_partials_of s g n bmask lg)) (nx, ny, nz)"
    using mask_partials_result[OF assms, of s g lg] by simp
  have eq: "fst (refine_mask s g n bmask lg) =
      map2_3 (\<lambda>p e. fadd p (F64 (if e then 1 else 0))) (fst (mask_partials_of s g n bmask lg))
        (binary_erosion bmask)"
    by (simp add: refine_mask_def Let_def split: prod.splits)
  show ?thesis
    unfolding eq by (simp add: has_shape_map2_3[OF p e] nth_map2_3[OF p e])
qed

lemma row_mask: "make_segment_mask_for_structure row_grid half_space [] =
   (Inr [[[F64 1]], [[F64 0]], [[F64 0]]],
    [(VVector 0 0 0, VVector 0 0 0, 1), (VVector 1 0 0, VVector 1 0 0, 1), (VVector 2 0 0, VVector 2 0 0, 1)])"
  by (simp add: make_segment_mask_for_structure_def fill_in_profiles_def row_grid_def half_space_def
       np_zeros_def get_profile_def call_profile_def CopyTo_def set_column_def c_bool_def
       numeral_3_eq_3 Let_def)

lemma row_erosion: "binary_erosion [[[F64 1]], [[F64 0]], [[F64 0]]] = [[[False]], [[False]], [[False]]]"
  by (simp add: binary_erosion_def tabulate_like_def structuring_element_def voxel_set_def numeral_3_eq_3)

lemma row_dilation: "binary_dilation [[[F64 1]], [[F64 0]], [[F64 0]]] = [[[True]], [[True]], [[False]]]"
  by (simp add: binary_dilation_def tabulate_like_def structuring_element_def voxel_set_def numeral_3_eq_3)

lemma row_boundary: "mask_boundary_of [[[F64 1]], [[F64 0]], [[F64 0]]] = [[[True]], [[True]], [[False]]]"
  by (simp add: mask_boundary_of_def row_erosion row_dilation map2_3_def)

lemma row_where: "np_where [[[True]], [[True]], [[False]]] = [(0, 0, 0), (1, 0, 0)]"
  by (simp add: np_where_def numeral_3_eq_3)

lemma row_partials: "fst (mask_partials_of half_space row_grid 2 [[[F64 1]], [[F64 0]], [[F64 0]]] lg)
    = [[[F64 (1/2)]], [[F64 0]], [[F64 0]]]"
  by (simp add: mask_partials_of_def row_boundary row_where map_3_def Let_def refine_voxel_def
      np_linspace_def set_voxel_def call_profile_def half_space_def row_grid_def numeral_2_eq_2
      split: prod.splits)


lemma fst_refine_mask:
  "fst (refine_mask s g n bmask lg) =
      map2_3 (\<lambda>p e. fadd p (F64 (if e then 1 else 0))) (fst (mask_partials_of s g n bmask lg))
        (binary_erosion bmask)"
  by (simp add: refine_mask_def Let_def split: prod.splits)

lemma fst_make_segment_mask_for_grid:
  "make_segment_mask_for_structure g s lg = (Inr bmask, lg1) \<Longrightarrow> 1 < n \<Longrightarrow>
     fst (make_segment_mask_for_grid s (Some g) (PyInt n) lg) = Inr (fst (refine_mask s g n bmask lg1))"
  by (simp add: make_segment_mask_for_grid_def split: prod.splits)

lemma row_refined: "fst (refine_mask half_space row_grid 2 [[[F64 1]], [[F64 0]], [[F64 0]]] lg)
    = [[[F64 (1/2)]], [[F64 0]], [[F64 0]]]"
  by (simp add: fst_refine_mask row_partials row_erosion map2_3_def)

lemma refine_mask_voxel:
  assumes "has_shape bmask (nx, ny, nz)" and "1 < n" and "x < nx" and "y < ny" and "z < nz"
  shows "fst (refine_mask s g n bmask lg) ! x ! y ! z
           = (if mask_boundary_of bmask ! x ! y ! z then voxel_fraction s g (nat n) x y z
              else F64 (if binary_erosion bmask ! x ! y ! z then 1 else 0))"
proof -
  note sh = assms(1) and r = assms(3-5)
  have b: "mask_boundary_of bmask ! x ! y ! z \<longleftrightarrow>
           binary_dilation bmask ! x ! y ! z \<and> \<not> binary_erosion bmask ! x ! y ! z"
    using boundary_iff[OF sh r] .
  have p: "fst (mask_partials_of s g n bmask lg) ! x ! y ! z
        = (if mask_boundary_of bmask ! x ! y ! z then voxel_fraction s g (nat n) x y z else F64 0)"
    using mask_partials_result[OF assms(2) sh, of s g lg] r by simp
  have m: "fst (refine_mask s g n bmask lg) ! x ! y ! z
        = fadd (fst (mask_partials_of s g n bmask lg) ! x ! y ! z)
               (F64 (if binary_erosion bmask ! x ! y ! z then 1 else 0))"
    using refine_mask_result[OF assms(2) sh, of s g lg] r by simp
  show ?thesis
  proof (cases "mask_boundary_of bmask ! x ! y ! z")
    case True
    then show ?thesis using m p b by (simp add: voxel_fraction_def)
  next
    case False
    then show ?thesis using m p by simp
  qed
qed

section \<open>Properties of the partial-volume refiner\<close>



section \<open>Properties of the marshaler and of the dose calibration\<close>

text \<open>
  C4. The verification pass of the marshaler is meant to fail when the destination
  differs from the source. The check \<open>check_arrays\<close> asks only that some pair of
  corresponding elements is equal: the arrays \<open>[1, 2]\<close> and \<open>[1, 3]\<close>, which differ
  in their second element, pass it, and a marshaling step in verification mode whose
  copy of \<open>[1, 2]\<close> reads \<open>[1, 3]\<close> returns that copy without an error.
\<close>

theorem check_arrays_accepts_divergent:
  "check_arrays (py_eq c_int32) [1, 2] [1, 3] = Inr ()
   \<and> to_ndarray_with (\<lambda>src. [1, 3]) True [1, 2] c_int32 = Inr [1, 3]"
  by (simp add: to_ndarray_with_def check_arrays_def any_equal_def c_int32_def)

text \<open>
  C2. The calibration of \<open>dose_to_nparray\<close> is meant to reproduce the reference dose
  values at the raw values 0 and 1. On the example dose, whose references are 2 and 4,
  the result is 1 at the raw value 0 and 3 at the raw value 1: the offset
  \<open>dose(0) / scale\<close> is added after the array is multiplied by the scale.
\<close>

theorem dose_to_nparray_example:
  "dose_to_nparray example_dose = Inr [[[F64 1]], [[F64 3]]]
   \<and> VoxelToDoseValue example_dose 0 = F64 2 \<and> VoxelToDoseValue example_dose 1 = F64 4"
  by (simp add: dose_to_nparray_def image_to_nparray_def example_dose_def np_zeros_def
      to_ndarray_def to_ndarray_with_def SAFE_MODE_def voxel_buffer_def reshape2_def set_plane_def
      c_int32_def map_3_def upt_rec[of 0 2] upt_rec[of 1 2] numeral_2_eq_2)


section \<open>Properties of the scan and of the mask builder\<close>




text \<open>
  C7. \<open>make_segment_mask_for_structure\<close> is documented to return an array of bools.
  For the half space and the example grid it returns the float64 array
  \<open>[[[1.0, 1.0]], [[0.0, 0.0]]]\<close>: the scanner writes the boolean profile into an array made
  by \<open>np.zeros\<close>, whose elements are float64.
\<close>

theorem mask_for_structure_example:
  "make_segment_mask_for_structure example_grid half_space [] =
     (Inr [[[F64 1, F64 1]], [[F64 0, F64 0]]], [(VVector 0 0 0, VVector 0 0 3, 2), (VVector 1 0 0, VVector 1 0 3, 2)])"
  by (simp add: make_segment_mask_for_structure_def fill_in_profiles_def example_grid_def half_space_def
       np_zeros_def get_profile_def call_profile_def CopyTo_def set_column_def c_bool_def numeral_2_eq_2 Let_def)


text \<open>
  C3, as the claim states it: a call with \<open>sub_samples = 1\<close> is said to fail before
  any profile query. On the example the call fails, but its log holds the two
  profile queries of the binary-mask scan.
\<close>

theorem subsample_check_after_scan:
  "make_segment_mask_for_grid half_space (Some example_grid) (PyInt 1) [] =
     (Inl (AssertionError ''sub_samples must be > 1''),
      [(VVector 0 0 0, VVector 0 0 3, 2), (VVector 1 0 0, VVector 1 0 3, 2)])"
  by (simp add: make_segment_mask_for_grid_def make_segment_mask_for_structure_def fill_in_profiles_def example_grid_def half_space_def
       np_zeros_def get_profile_def call_profile_def CopyTo_def set_column_def c_bool_def numeral_2_eq_2 Let_def)


text \<open>
  C3, amended. A structure without segment data makes \<open>make_segment_mask_for_structure\<close>
  and \<open>make_segment_mask_for_grid\<close> fail with the error of missing segment data before any
  profile query. An integer \<open>sub_samples \<le> 1\<close> on a structure with segment data
  makes \<open>make_segment_mask_for_grid\<close> fail with the assertion error of the sub-sample
  count after the binary-mask scan has made its \<open>XSize * YSize\<close> profile queries,
  and before any query of the refiner.
\<close>

theorem precondition_failures:
  "(\<not> HasSegment s \<longrightarrow>
      make_segment_mask_for_structure g s lg = (Inl (Exception ''structure has no segment data''), lg)
    \<and> make_segment_mask_for_grid s (Some g) sub_samples lg
         = (Inl (Exception ''structure has no segment data''), lg))
   \<and> (HasSegment s \<and> n \<le> 1 \<longrightarrow>
      make_segment_mask_for_grid s (Some g) (PyInt n) lg
         = (Inl (AssertionError ''sub_samples must be > 1''), lg @ scan_calls g 0 (XSize g))
    \<and> length (scan_calls g 0 (XSize g)) = XSize g * YSize g)"
proof -
  have a: "\<not> HasSegment s \<longrightarrow>
      make_segment_mask_for_structure g s lg = (Inl (Exception ''structure has no segment data''), lg)
    \<and> make_segment_mask_for_grid s (Some g) sub_samples lg
         = (Inl (Exception ''structure has no segment data''), lg)"
    by (simp add: make_segment_mask_for_structure_def make_segment_mask_for_grid_def)
  have b: "HasSegment s \<and> n \<le> 1 \<longrightarrow>
      make_segment_mask_for_grid s (Some g) (PyInt n) lg
         = (Inl (AssertionError ''sub_samples must be > 1''), lg @ scan_calls g 0 (XSize g))"
  proof
    assume h: "HasSegment s \<and> n \<le> 1"
    from mask_for_structure_result[of s g lg] h
    obtain a where "make_segment_mask_for_structure g s lg = (Inr a, lg @ scan_calls g 0 (XSize g))"
      by blast
    then show "make_segment_mask_for_grid s (Some g) (PyInt n) lg
         = (Inl (AssertionError ''sub_samples must be > 1''), lg @ scan_calls g 0 (XSize g))"
      using h by (simp add: make_segment_mask_for_grid_def)
  qed
  show ?thesis using a b length_scan_calls[of g "XSize g"] by blast
qed

theorem precondition_failures_witness:
  "make_segment_mask_for_grid no_segment (Some example_grid) (PyInt 0) [] =
      (Inl (Exception ''structure has no segment data''), [])
   \<and> make_segment_mask_for_grid half_space (Some example_grid) (PyInt 0) [] =
      (Inl (AssertionError ''sub_samples must be > 1''),
       [(VVector 0 0 0, VVector 0 0 3, 2), (VVector 1 0 0, VVector 1 0 3, 2)])"
  using precondition_failures[of no_segment example_grid "[]" "PyInt 0" 0]
    precondition_failures[of half_space example_grid "[]" "PyInt 0" 0]
  by (simp add: no_segment_def half_space_def scan_calls_def example_grid_def scan_stop_def numeral_2_eq_2)


text \<open>
  C10. A \<open>sub_samples\<close> argument that is given and whose type is not exactly
  \<open>int\<close>, such as the float \<open>2.0\<close> or the boolean \<open>True\<close>, never lets
  \<open>make_segment_mask_for_grid\<close> return an array, whatever its value. When the call
  has a grid and a structure with segment data, so that the binary mask is built, it
  fails with the assertion error of the type check: the log holds the queries of the
  binary-mask scan and none of the refiner.
\<close>

theorem non_integer_sub_samples_rejected:
  assumes "sub_samples \<noteq> PyNone" and "\<not> type_is_int sub_samples"
  shows "(\<exists>e. fst (make_segment_mask_for_grid s
                   (dose_or_image :: ('z dose_or_image_scheme) option) sub_samples lg) = Inl e)
       \<and> (HasSegment s \<longrightarrow>
            make_segment_mask_for_grid s (Some (g :: 'z dose_or_image_scheme)) sub_samples lg =
              (Inl (AssertionError ''sub_samples must be an integer''),
               lg @ scan_calls g 0 (XSize g)))"
proof -
  have typed: "HasSegment s \<longrightarrow>
            make_segment_mask_for_grid s (Some g) sub_samples lg =
              (Inl (AssertionError ''sub_samples must be an integer''),
               lg @ scan_calls g 0 (XSize g))" for g :: "'z dose_or_image_scheme"
  proof
    assume "HasSegment s"
    from mask_for_structure_result[OF this, of g lg]
    obtain a where "make_segment_mask_for_structure g s lg = (Inr a, lg @ scan_calls g 0 (XSize g))"
      by blast
    then show "make_segment_mask_for_grid s (Some g) sub_samples lg =
              (Inl (AssertionError ''sub_samples must be an integer''),
               lg @ scan_calls g 0 (XSize g))"
      using assms by (simp add: make_segment_mask_for_grid_def)
  qed
  have fails: "\<exists>e. fst (make_segment_mask_for_grid s dose_or_image sub_samples lg) = Inl e"
  proof (cases dose_or_image)
    case None
    then show ?thesis by (simp add: make_segment_mask_for_grid_def)
  next
    case (Some g')
    show ?thesis
    proof (cases "HasSegment s")
      case True
      then show ?thesis using typed[of g'] Some by simp
    next
      case False
      then show ?thesis
        using Some by (simp add: make_segment_mask_for_grid_def make_segment_mask_for_structure_def)
    qed
  qed
  show ?thesis using fails typed by blast
qed

theorem non_integer_sub_samples_rejected_witness:
  "PyFloat (F64 2) \<noteq> PyNone \<and> \<not> type_is_int (PyFloat (F64 2)) \<and> HasSegment half_space
   \<and> PyBool True \<noteq> PyNone \<and> \<not> type_is_int (PyBool True)
   \<and> make_segment_mask_for_grid half_space (Some example_grid) (PyFloat (F64 2)) []
        = (Inl (AssertionError ''sub_samples must be an integer''),
           [(VVector 0 0 0, VVector 0 0 3, 2), (VVector 1 0 0, VVector 1 0 3, 2)])
   \<and> fst (make_segment_mask_for_grid half_space (Some example_grid) (PyBool True) [])
        = Inl (AssertionError ''sub_samples must be an integer'')"
proof -
  have f: "PyFloat (F64 2) \<noteq> PyNone" "\<not> type_is_int (PyFloat (F64 2))" by simp_all
  have b: "PyBool True \<noteq> PyNone" "\<not> type_is_int (PyBool True)" by simp_all
  have h: "HasSegment half_space" by (simp add: half_space_def)
  have calls: "scan_calls example_grid 0 (XSize example_grid)
      = [(VVector 0 0 0, VVector 0 0 3, 2), (VVector 1 0 0, VVector 1 0 3, 2)]"
    by (simp add: scan_calls_def example_grid_def scan_stop_def numeral_2_eq_2)
  show ?thesis
    using h calls
      non_integer_sub_samples_rejected[OF f, of half_space "Some example_grid" "[]" example_grid]
      non_integer_sub_samples_rejected[OF b, of half_space "Some example_grid" "[]" example_grid]
    by simp
qed

section \<open>Properties of the dose extraction\<close>

text \<open>
  C8. Whenever \<open>make_dose_for_grid\<close> has an array to return (the calibrated array of
  \<open>dose_to_nparray\<close>, or the profile array scanned over the image grid), the array
  it returns has the same shape, holds no NaN, holds 0.0 wherever that array holds
  NaN, and holds its value everywhere else.
\<close>

theorem make_dose_for_grid_scrubs_nan:
  assumes "dose_array_for_grid dose img lg = (Inr u, lg')"
  shows "\<exists>a. make_dose_for_grid dose img lg = (Inr a, lg')
     \<and> length a = length u
     \<and> (\<forall>x < length u. length (a ! x) = length (u ! x)
          \<and> (\<forall>y < length (u ! x). length (a ! x ! y) = length (u ! x ! y)
               \<and> (\<forall>z < length (u ! x ! y).
                     \<not> isnan (a ! x ! y ! z)
                   \<and> a ! x ! y ! z = (if isnan (u ! x ! y ! z) then F64 0 else u ! x ! y ! z))))"
proof -
  have "make_dose_for_grid dose img lg = (Inr (nan_to_zero u), lg')"
    using assms by (simp add: make_dose_for_grid_def)
  moreover have "length (nan_to_zero u) = length u"
    by (simp add: nan_to_zero_def length_map_3)
  moreover have "\<forall>x < length u. length (nan_to_zero u ! x) = length (u ! x)
          \<and> (\<forall>y < length (u ! x). length (nan_to_zero u ! x ! y) = length (u ! x ! y)
               \<and> (\<forall>z < length (u ! x ! y).
                     \<not> isnan (nan_to_zero u ! x ! y ! z)
                   \<and> nan_to_zero u ! x ! y ! z = (if isnan (u ! x ! y ! z) then F64 0 else u ! x ! y ! z)))"
    by (simp add: nan_to_zero_def length_map_3_1 length_map_3_2 nth_map_3)
  ultimately show ?thesis by blast
qed

theorem make_dose_for_grid_scrubs_nan_witness:
  "dose_array_for_grid nan_dose (Some cube_grid) [] =
     (Inr [[[F64 5, F64 5], [F64 5, F64 5]], [[F64 5, F64 5], [F64 5, NaN]]],
      [(VVector 0 0 0, VVector 0 0 1, 2), (VVector 0 1 0, VVector 0 1 1, 2),
       (VVector 1 0 0, VVector 1 0 1, 2), (VVector 1 1 0, VVector 1 1 1, 2)])
   \<and> (\<exists>a. fst (make_dose_for_grid nan_dose (Some cube_grid) []) = Inr a
          \<and> a ! 1 ! 1 ! 1 = F64 0 \<and> a ! 1 ! 1 ! 0 = F64 5 \<and> a ! 0 ! 0 ! 0 = F64 5)"
proof -
  let ?u = "[[[F64 5, F64 5], [F64 5, F64 5]], [[F64 5, F64 5], [F64 5, NaN]]]"
  let ?l = "[(VVector 0 0 0, VVector 0 0 1, 2), (VVector 0 1 0, VVector 0 1 1, 2),
       (VVector 1 0 0, VVector 1 0 1, 2), (VVector 1 1 0, VVector 1 1 1, 2)]"
  have h: "dose_array_for_grid nan_dose (Some cube_grid) [] = (Inr ?u, ?l)"
    by (simp add: dose_array_for_grid_def fill_in_profiles_def cube_grid_def nan_dose_def
         np_zeros_def get_profile_def call_profile_def set_column_def c_double_def
         numeral_2_eq_2 Let_def)
  from make_dose_for_grid_scrubs_nan[OF h]
  obtain a where A: "make_dose_for_grid nan_dose (Some cube_grid) [] = (Inr a, ?l)"
    and B: "\<forall>x < length ?u. length (a ! x) = length (?u ! x)
          \<and> (\<forall>y < length (?u ! x). length (a ! x ! y) = length (?u ! x ! y)
               \<and> (\<forall>z < length (?u ! x ! y).
                     \<not> isnan (a ! x ! y ! z)
                   \<and> a ! x ! y ! z = (if isnan (?u ! x ! y ! z) then F64 0 else ?u ! x ! y ! z)))"
    by blast
  from B[THEN spec, of 1] have B1: "\<forall>y < length (?u ! 1).
        (\<forall>z < length (?u ! 1 ! y).
            a ! 1 ! y ! z = (if isnan (?u ! 1 ! y ! z) then F64 0 else ?u ! 1 ! y ! z))"
    by simp
  from B[THEN spec, of 0] have B0: "\<forall>y < length (?u ! 0).
        (\<forall>z < length (?u ! 0 ! y).
            a ! 0 ! y ! z = (if isnan (?u ! 0 ! y ! z) then F64 0 else ?u ! 0 ! y ! z))"
    by simp
  from B1[THEN spec, of 1] have B11: "\<forall>z < length (?u ! 1 ! 1).
            a ! 1 ! 1 ! z = (if isnan (?u ! 1 ! 1 ! z) then F64 0 else ?u ! 1 ! 1 ! z)"
    by simp
  from B0[THEN spec, of 0] have B00: "\<forall>z < length (?u ! 0 ! 0).
            a ! 0 ! 0 ! z = (if isnan (?u ! 0 ! 0 ! z) then F64 0 else ?u ! 0 ! 0 ! z)"
    by simp
  have "a ! 1 ! 1 ! 1 = F64 0" using B11[THEN spec, of 1] by simp
  moreover have "a ! 1 ! 1 ! 0 = F64 5" using B11[THEN spec, of 0] by simp
  moreover have "a ! 0 ! 0 ! 0 = F64 5" using B00[THEN spec, of 0] by simp
  ultimately show ?thesis using h A by simp
qed



section \<open>Properties of the sub-sampled mask\<close>

text \<open>
  C9. For every mask of a shape \<open>(nx, ny, nz)\<close> and every voxel of it, in the
  refinement branch (an integer \<open>sub_samples > 1\<close>): a boundary voxel (dilated XOR
  eroded) is not set in the eroded mask, since a voxel set in the eroded mask is set in the
  dilated mask; the array \<open>mask_partials\<close> is 0 at every voxel that is not a boundary
  voxel; so the sum \<open>mask_partials + mask_eroded\<close> is the entry of \<open>mask_partials\<close>
  at a boundary voxel and the eroded value, 0 or 1, at any other voxel.
\<close>

theorem partials_and_erosion_disjoint:
  assumes "has_shape bmask (nx, ny, nz)" and "1 < sub_samples"
    and "x < nx" and "y < ny" and "z < nz"
  shows "(mask_boundary_of bmask ! x ! y ! z \<longrightarrow> \<not> binary_erosion bmask ! x ! y ! z)
       \<and> (binary_erosion bmask ! x ! y ! z \<longrightarrow> binary_dilation bmask ! x ! y ! z)
       \<and> (\<not> mask_boundary_of bmask ! x ! y ! z \<longrightarrow>
            fst (mask_partials_of s g sub_samples bmask lg) ! x ! y ! z = F64 0)
       \<and> fst (refine_mask s g sub_samples bmask lg) ! x ! y ! z
           = (if mask_boundary_of bmask ! x ! y ! z
              then fst (mask_partials_of s g sub_samples bmask lg) ! x ! y ! z
              else F64 (if binary_erosion bmask ! x ! y ! z then 1 else 0))"
proof -
  note sh = assms(1) and r = assms(3-5)
  have b: "mask_boundary_of bmask ! x ! y ! z \<longleftrightarrow>
           binary_dilation bmask ! x ! y ! z \<and> \<not> binary_erosion bmask ! x ! y ! z"
    using boundary_iff[OF sh r] .
  have ed: "binary_erosion bmask ! x ! y ! z \<longrightarrow> binary_dilation bmask ! x ! y ! z"
    using erosion_imp_set[OF sh r] set_imp_dilation[OF sh r] by blast
  have p: "fst (mask_partials_of s g sub_samples bmask lg) ! x ! y ! z
        = (if mask_boundary_of bmask ! x ! y ! z then voxel_fraction s g (nat sub_samples) x y z else F64 0)"
    using mask_partials_result[OF assms(2) sh, of s g lg] r by simp
  have c1: "mask_boundary_of bmask ! x ! y ! z \<longrightarrow> \<not> binary_erosion bmask ! x ! y ! z"
    using b by simp
  have c3: "\<not> mask_boundary_of bmask ! x ! y ! z \<longrightarrow>
            fst (mask_partials_of s g sub_samples bmask lg) ! x ! y ! z = F64 0"
    using p by simp
  have c4: "fst (refine_mask s g sub_samples bmask lg) ! x ! y ! z
           = (if mask_boundary_of bmask ! x ! y ! z
              then fst (mask_partials_of s g sub_samples bmask lg) ! x ! y ! z
              else F64 (if binary_erosion bmask ! x ! y ! z then 1 else 0))"
    using refine_mask_voxel[OF assms, of s g lg] p by simp
  show ?thesis using c1 ed c3 c4 by blast
qed

theorem partials_and_erosion_disjoint_witness:
  "has_shape [[[F64 1]], [[F64 0]], [[F64 0]]] (3, 1, 1) \<and> 1 < (2::int)
   \<and> \<not> mask_boundary_of [[[F64 1]], [[F64 0]], [[F64 0]]] ! 2 ! 0 ! 0
   \<and> fst (refine_mask half_space row_grid 2 [[[F64 1]], [[F64 0]], [[F64 0]]] []) ! 2 ! 0 ! 0 = F64 0
   \<and> mask_boundary_of [[[F64 1]], [[F64 0]], [[F64 0]]] ! 0 ! 0 ! 0
   \<and> \<not> binary_erosion [[[F64 1]], [[F64 0]], [[F64 0]]] ! 0 ! 0 ! 0
   \<and> fst (refine_mask half_space row_grid 2 [[[F64 1]], [[F64 0]], [[F64 0]]] []) ! 0 ! 0 ! 0
        = F64 (1 / 2)"
proof -
  have sh: "has_shape [[[F64 1]], [[F64 0]], [[F64 0]]] (3, 1, 1)"
    by (simp add: has_shape_def)
  have n: "1 < (2::int)" by simp
  note far = partials_and_erosion_disjoint[OF sh n, of 2 0 0 half_space row_grid "[]"]
  note near = partials_and_erosion_disjoint[OF sh n, of 0 0 0 half_space row_grid "[]"]
  show ?thesis
    using sh far near by (simp add: row_boundary row_erosion row_partials)
qed


text \<open>
  C1. For every structure with segment data, every grid and every integer
  \<open>sub_samples > 1\<close>, \<open>make_segment_mask_for_grid\<close> returns an array of the shape
  of the grid; each of its elements is a number between 0 and 1, and each voxel
  that is not a boundary voxel of the binary mask holds its eroded value, 0 or 1,
  exactly.
\<close>

theorem subsampled_mask_bounded:
  assumes "HasSegment s" and "1 < n"
  shows "\<exists>bmask a lg1 lg2.
           make_segment_mask_for_structure g s lg = (Inr bmask, lg1)
         \<and> make_segment_mask_for_grid s (Some g) (PyInt n) lg = (Inr a, lg2)
         \<and> has_shape a (XSize g, YSize g, ZSize g)
         \<and> (\<forall>x < XSize g. \<forall>y < YSize g. \<forall>z < ZSize g.
               (\<exists>r. a ! x ! y ! z = F64 r \<and> 0 \<le> r \<and> r \<le> 1)
             \<and> (\<not> mask_boundary_of bmask ! x ! y ! z \<longrightarrow>
                   a ! x ! y ! z = F64 (if binary_erosion bmask ! x ! y ! z then 1 else 0)))"
proof -
  from mask_for_structure_result[OF assms(1), of g lg]
  obtain bmask where M: "make_segment_mask_for_structure g s lg = (Inr bmask, lg @ scan_calls g 0 (XSize g))"
    and l: "length bmask = XSize g" and p: "\<forall>x < XSize g. length (bmask ! x) = YSize g"
    and rows: "\<forall>x < XSize g. \<forall>y < YSize g. bmask ! x ! y = scan_row g (GetSegmentProfile s) c_bool x y"
    by blast
  have sh: "has_shape bmask (XSize g, YSize g, ZSize g)"
    using l p rows by (simp add: has_shape_iff scan_row_def)
  let ?lg1 = "lg @ scan_calls g 0 (XSize g)"
  let ?a = "fst (refine_mask s g n bmask ?lg1)"
  have G: "make_segment_mask_for_grid s (Some g) (PyInt n) lg = (Inr ?a, snd (refine_mask s g n bmask ?lg1))"
    using M assms(2) by (simp add: make_segment_mask_for_grid_def split: prod.splits)
  have sha: "has_shape ?a (XSize g, YSize g, ZSize g)"
    using refine_mask_result[OF assms(2) sh, of s g ?lg1] by simp
  have pt: "\<forall>x < XSize g. \<forall>y < YSize g. \<forall>z < ZSize g.
               (\<exists>r. ?a ! x ! y ! z = F64 r \<and> 0 \<le> r \<and> r \<le> 1)
             \<and> (\<not> mask_boundary_of bmask ! x ! y ! z \<longrightarrow>
                   ?a ! x ! y ! z = F64 (if binary_erosion bmask ! x ! y ! z then 1 else 0))"
  proof (intro allI impI)
    fix x y z assume r: "x < XSize g" "y < YSize g" "z < ZSize g"
    note D = refine_mask_voxel[OF sh assms(2) r, of s g ?lg1]
    have n0: "0 < nat n" using assms(2) by simp
    from voxel_fraction_bounds[OF n0, of s g x y z]
    obtain q where q: "voxel_fraction s g (nat n) x y z = F64 q" "0 \<le> q" "q \<le> 1" by blast
    show "(\<exists>r. ?a ! x ! y ! z = F64 r \<and> 0 \<le> r \<and> r \<le> 1)
             \<and> (\<not> mask_boundary_of bmask ! x ! y ! z \<longrightarrow>
                   ?a ! x ! y ! z = F64 (if binary_erosion bmask ! x ! y ! z then 1 else 0))"
      using D q by (cases "mask_boundary_of bmask ! x ! y ! z") auto
  qed
  show ?thesis using M G sha pt by blast
qed

theorem subsampled_mask_bounded_witness:
  "HasSegment half_space \<and> 1 < (2::int)
   \<and> fst (make_segment_mask_for_grid half_space (Some row_grid) (PyInt 2) [])
        = Inr [[[F64 (1 / 2)]], [[F64 0]], [[F64 0]]]"
proof -
  have h: "HasSegment half_space" by (simp add: half_space_def)
  have n: "1 < (2::int)" by simp
  from subsampled_mask_bounded[OF h n, of row_grid "[]"]
  obtain a lg2 where
    "make_segment_mask_for_grid half_space (Some row_grid) (PyInt 2) [] = (Inr a, lg2)"
    by blast
  then show ?thesis
    using h fst_make_segment_mask_for_grid[OF row_mask n] by (simp add: row_refined)
qed


end
